theory Spec2Isabelle
  imports Complex_Main "HOL-Library.Char_ord" "HOL-Library.List_Lexorder"
begin

section \<open>The sensor bridge implementation (YarpSensorBridgeImpl.h)\<close>

text \<open>
  A shallow embedding of \<^verbatim>\<open>struct YarpSensorBridge::Impl\<close>. Every member function
  becomes a HOL function that takes the parts of the object it reads and returns its
  \<^verbatim>\<open>bool\<close> result together with the parts it writes: a reference parameter or a member
  the function assigns to is returned updated, a parameter that C++ passes by value is a
  plain argument. A pointer is an \<open>option\<close>: \<open>None\<close> is \<^verbatim>\<open>nullptr\<close>. Dereferencing
  \<^verbatim>\<open>nullptr\<close> and indexing out of range are errors of the model (\<open>Inl\<close>).
  Writes to \<^verbatim>\<open>std::cerr\<close> and \<^verbatim>\<open>std::cout\<close> change no result and no member; they are
  kept only where a property speaks about what is written (\<open>checkValid\<close>,
  \<open>checkAttachedMASSensors\<close>, \<open>configureCameras\<close>).
\<close>

subsection \<open>Device interfaces\<close>

text \<open>
  The YARP interfaces are external. Each one is represented by what the bridge can
  observe through the calls it makes on it.
\<close>

datatype error = NullPointerDereference | IndexOutOfRange

text \<open>\<^verbatim>\<open>IGenericSensor::getChannels(int*)\<close>: the channel count it writes.\<close>
datatype IGenericSensor = IGenericSensor (genericChannels: int)

text \<open>\<^verbatim>\<open>IAnalogSensor::getChannels()\<close>: the channel count it returns.\<close>
datatype IAnalogSensor = IAnalogSensor (analogChannels: int)

text \<open>
  A multiple analog sensor (MAS) interface, one type for the five interfaces the
  templates are instantiated with (accelerometers, gyroscopes, magnetometers, orientation
  sensors, six axis force torque sensors): the functions below call the same two
  methods on each. The list has one entry per sensor index below the count the
  interface reports (\<^verbatim>\<open>getNrOf...\<close>); entry \<open>i\<close> is the answer of the name query at index
  \<open>i\<close> (\<^verbatim>\<open>get...Name(i, name)\<close>): its \<^verbatim>\<open>bool\<close> result and the string it leaves in \<^verbatim>\<open>name\<close>.
\<close>
datatype MASSensorType = MASSensorType (masSensors: "(bool \<times> string) list")

text \<open>\<^verbatim>\<open>IEncodersTimed::getAxes(int*)\<close>: the number of axes it writes.\<close>
datatype IEncodersTimed = IEncodersTimed (getAxes: int)

text \<open>\<^verbatim>\<open>IAxisInfo::getAxisName(int, std::string&)\<close>: the name it leaves in the string.\<close>
datatype IAxisInfo = IAxisInfo (getAxisName: "nat \<Rightarrow> string")

text \<open>The camera interfaces: no method of theirs is called during attachment.\<close>
datatype IFrameGrabberImage = IFrameGrabberImage nat
datatype IRGBDSensor = IRGBDSensor nat

text \<open>
  \<^verbatim>\<open>PolyDriver::view(T*&)\<close> for each interface type \<open>T\<close> the bridge asks for: the \<^verbatim>\<open>bool\<close> it
  returns and the pointer it leaves in its argument.
\<close>
record PolyDriver =
  viewIGenericSensor :: "bool \<times> IGenericSensor option"
  viewIAnalogSensor :: "bool \<times> IAnalogSensor option"
  viewIThreeAxisLinearAccelerometers :: "bool \<times> MASSensorType option"
  viewIThreeAxisGyroscopes :: "bool \<times> MASSensorType option"
  viewIThreeAxisMagnetometers :: "bool \<times> MASSensorType option"
  viewIOrientationSensors :: "bool \<times> MASSensorType option"
  viewISixAxisForceTorqueSensors :: "bool \<times> MASSensorType option"
  viewIEncodersTimed :: "bool \<times> IEncodersTimed option"
  viewIAxisInfo :: "bool \<times> IAxisInfo option"
  viewIFrameGrabberImage :: "bool \<times> IFrameGrabberImage option"
  viewIRGBDSensor :: "bool \<times> IRGBDSensor option"

text \<open>An element of \<^verbatim>\<open>yarp::dev::PolyDriverList\<close>.\<close>
record PolyDriverDescriptor =
  key :: string
  poly :: PolyDriver

subsection \<open>Meta data and members of the implementation\<close>

record SensorLists =
  jointsList :: "string list"
  IMUsList :: "string list"
  linearAccelerometersList :: "string list"
  gyroscopesList :: "string list"
  orientationSensorsList :: "string list"
  magnetometersList :: "string list"
  sixAxisForceTorqueSensorsList :: "string list"
  cartesianWrenchesList :: "string list"
  rgbCamerasList :: "string list"
  depthCamerasList :: "string list"

record SensorBridgeOptions =
  isKinematicsEnabled :: bool
  isIMUEnabled :: bool
  isLinearAccelerometerEnabled :: bool
  isGyroscopeEnabled :: bool
  isOrientationSensorEnabled :: bool
  isMagnetometerEnabled :: bool
  isSixAxisForceTorqueSensorEnabled :: bool
  isCartesianWrenchEnabled :: bool
  isCameraEnabled :: bool
  nrJoints :: nat
  imgDimensions :: "string \<rightharpoonup> int \<times> int"

record SensorBridgeMetaData =
  sensorsList :: SensorLists
  bridgeOptions :: SensorBridgeOptions

text \<open>
  The parameters handler is external. It is represented by its answers to the two
  overloads of \<^verbatim>\<open>getParameter\<close> that the configuration functions call, by parameter
  name: the \<^verbatim>\<open>bool\<close> it returns and the content of the vector after the call.
\<close>
record IParametersHandler =
  getParameterStrings :: "string \<Rightarrow> bool \<times> string list"
  getParameterInts :: "string \<Rightarrow> bool \<times> int list"

record ControlBoardRemapperInterfaces =
  encoders :: "IEncodersTimed option"
  axis :: "IAxisInfo option"

record WholeBodyMASInertialsInterface =
  accelerometers :: "MASSensorType option"
  gyroscopes :: "MASSensorType option"
  magnetometers :: "MASSensorType option"
  orientationSensors :: "MASSensorType option"

record WholeBodyMASForceTorquesInterface =
  sixAxisFTSensors :: "MASSensorType option"

text \<open>
  The three \<^verbatim>\<open>Eigen::VectorXd\<close> buffers. \<open>remappedJointIndices\<close> holds control board
  indices (an \<^verbatim>\<open>int\<close> loop counter stored in a \<^verbatim>\<open>double\<close>, exact for every index a vector
  can have), so its entries are natural numbers here.
\<close>
record ControlBoardRemapperMeasures =
  remappedJointIndices :: "nat list"
  jointPositions :: "real list"
  jointVelocities :: "real list"

text \<open>
  An image buffer (\<^verbatim>\<open>Eigen::MatrixXd\<close>) is represented by its shape, the two arguments
  of its last \<^verbatim>\<open>resize\<close>; \<open>(0, 0)\<close> is the shape of a default constructed matrix.
\<close>
record Impl =
  controlBoardRemapperInterfaces :: ControlBoardRemapperInterfaces
  wholeBodyMASInertialsInterface :: WholeBodyMASInertialsInterface
  wholeBodyMASForceTorquesInterface :: WholeBodyMASForceTorquesInterface
  wholeBodyAnalogIMUInterface :: "string \<rightharpoonup> IGenericSensor"
  wholeBodyCartesianWrenchInterface :: "string \<rightharpoonup> IGenericSensor"
  wholeBodyAnalogSixAxisFTSensorsInterface :: "string \<rightharpoonup> IAnalogSensor"
  wholeBodyFrameGrabberInterface :: "string \<rightharpoonup> IFrameGrabberImage"
  wholeBodyRGBDInterface :: "string \<rightharpoonup> IRGBDSensor"
  controlBoardRemapperMeasures :: ControlBoardRemapperMeasures
  wholeBodyCameraImages :: "string \<rightharpoonup> int \<times> int"
  metaData :: SensorBridgeMetaData
  bridgeInitialized :: bool
  driversAttached :: bool

definition nrChannelsInYARPGenericIMUSensor :: int where
  "nrChannelsInYARPGenericIMUSensor = 12"

definition nrChannelsInYARPGenericCartesianWrench :: int where
  "nrChannelsInYARPGenericCartesianWrench = 6"

definition nrChannelsInYARPAnalogSixAxisFTSensor :: int where
  "nrChannelsInYARPAnalogSixAxisFTSensor = 6"

subsection \<open>The validity gate\<close>

text \<open>
  \<^verbatim>\<open>checkValid\<close>: the result and the text it writes to \<^verbatim>\<open>std::cerr\<close> (nothing when the
  bridge is ready).
\<close>
definition checkValid :: "string \<Rightarrow> Impl \<Rightarrow> bool \<times> string" where
  "checkValid methodName impl =
     (if \<not> (bridgeInitialized impl \<and> driversAttached impl)
      then (False, methodName @ '' SensorBridge is not ready. Please initialize and set drivers list.'')
      else (True, ''''))"

subsection \<open>Generic and analog sensors\<close>

text \<open>
  \<^verbatim>\<open>attachGenericOrAnalogSensor<SensorType>\<close>. The template parameter is the pair of
  \<open>view\<close> (the \<^verbatim>\<open>view\<close> call for \<^verbatim>\<open>SensorType\<close>) and \<open>getChannels\<close> (the branch of the
  \<^verbatim>\<open>if constexpr\<close>). The recursion follows the loop over the device list; the map is
  returned as the loop left it, also when the function returns \<^verbatim>\<open>false\<close>.
\<close>
fun attachGenericOrAnalogSensor ::
  "(PolyDriver \<Rightarrow> bool \<times> 'i option) \<Rightarrow> ('i \<Rightarrow> int) \<Rightarrow> PolyDriverDescriptor list \<Rightarrow> string \<Rightarrow> int
    \<Rightarrow> (string \<rightharpoonup> 'i) \<Rightarrow> bool \<times> (string \<rightharpoonup> 'i)" where
  "attachGenericOrAnalogSensor view getChannels [] sensorName nrChannelsInSensor sensorMap =
     (True, sensorMap)"
| "attachGenericOrAnalogSensor view getChannels (dev # devList) sensorName nrChannelsInSensor sensorMap =
     (if sensorName \<noteq> key dev
      then attachGenericOrAnalogSensor view getChannels devList sensorName nrChannelsInSensor sensorMap
      else if fst (view (poly dev))
      then (case snd (view (poly dev)) of
              None \<Rightarrow> (False, sensorMap)
            | Some sensorInterface \<Rightarrow>
                if getChannels sensorInterface \<noteq> nrChannelsInSensor then (False, sensorMap)
                else attachGenericOrAnalogSensor view getChannels devList sensorName nrChannelsInSensor
                       (sensorMap(key dev \<mapsto> sensorInterface)))
      else (False, sensorMap))"

text \<open>
  The loop of \<^verbatim>\<open>attachAllGenericOrAnalogSensors\<close> over the sensor list, left at the first
  sensor whose attachment fails: the value of \<^verbatim>\<open>allSensorsAttachedSuccesful\<close> and the map.
\<close>
fun attachEachGenericOrAnalogSensor ::
  "(PolyDriver \<Rightarrow> bool \<times> 'i option) \<Rightarrow> ('i \<Rightarrow> int) \<Rightarrow> PolyDriverDescriptor list \<Rightarrow> int
    \<Rightarrow> string list \<Rightarrow> (string \<rightharpoonup> 'i) \<Rightarrow> bool \<times> (string \<rightharpoonup> 'i)" where
  "attachEachGenericOrAnalogSensor view getChannels devList nrChannelsInSensor [] sensorMap =
     (True, sensorMap)"
| "attachEachGenericOrAnalogSensor view getChannels devList nrChannelsInSensor (sensorName # sensorList) sensorMap =
     (case attachGenericOrAnalogSensor view getChannels devList sensorName nrChannelsInSensor sensorMap of
        (False, sensorMap') \<Rightarrow> (False, sensorMap')
      | (True, sensorMap') \<Rightarrow>
          attachEachGenericOrAnalogSensor view getChannels devList nrChannelsInSensor sensorList sensorMap')"

text \<open>\<^verbatim>\<open>sensorMap.size()\<close> is the number of keys of the map.\<close>
definition attachAllGenericOrAnalogSensors ::
  "(PolyDriver \<Rightarrow> bool \<times> 'i option) \<Rightarrow> ('i \<Rightarrow> int) \<Rightarrow> PolyDriverDescriptor list \<Rightarrow> (string \<rightharpoonup> 'i)
    \<Rightarrow> int \<Rightarrow> string list \<Rightarrow> bool \<times> (string \<rightharpoonup> 'i)" where
  "attachAllGenericOrAnalogSensors view getChannels devList sensorMap nrChannelsInSensor sensorList =
     (case attachEachGenericOrAnalogSensor view getChannels devList nrChannelsInSensor sensorList sensorMap of
        (allSensorsAttachedSuccesful, sensorMap') \<Rightarrow>
          if \<not> allSensorsAttachedSuccesful \<or> card (dom sensorMap') \<noteq> length sensorList
          then (False, sensorMap')
          else (True, sensorMap'))"

subsection \<open>Multiple analog sensor interfaces\<close>

text \<open>
  The loop of \<^verbatim>\<open>attachRemappedMASSensor\<close>: the value of \<^verbatim>\<open>broken\<close> and of the function's
  parameter \<^verbatim>\<open>masSensorInterface\<close> when the loop is left. The result of \<^verbatim>\<open>view\<close> is
  ignored; only the pointer is looked at.
\<close>
fun findRemappedMASSensor ::
  "(PolyDriver \<Rightarrow> bool \<times> MASSensorType option) \<Rightarrow> PolyDriverDescriptor list \<Rightarrow> MASSensorType option
    \<Rightarrow> bool \<times> MASSensorType option" where
  "findRemappedMASSensor view [] masSensorInterface = (False, masSensorInterface)"
| "findRemappedMASSensor view (dev # devList) masSensorInterface =
     (case snd (view (poly dev)) of
        None \<Rightarrow> findRemappedMASSensor view devList masSensorInterface
      | Some sensorInterface \<Rightarrow> (True, Some sensorInterface))"

text \<open>
  \<^verbatim>\<open>attachRemappedMASSensor<MASSensorType>\<close>. The pointer \<^verbatim>\<open>masSensorInterface\<close> is a
  parameter passed by value: the function works on its own copy. The result is the
  returned \<^verbatim>\<open>bool\<close> and the value of that copy at the return; the caller's variable is
  not part of the result, since nothing of the function can reach it.
\<close>
definition attachRemappedMASSensor ::
  "(PolyDriver \<Rightarrow> bool \<times> MASSensorType option) \<Rightarrow> PolyDriverDescriptor list \<Rightarrow> MASSensorType option
    \<Rightarrow> bool \<times> MASSensorType option" where
  "attachRemappedMASSensor view devList masSensorInterface =
     (case findRemappedMASSensor view devList masSensorInterface of
        (broken, masSensorInterface') \<Rightarrow>
          if \<not> broken \<or> masSensorInterface' = None then (False, masSensorInterface')
          else (True, masSensorInterface'))"

definition getNumberOfMASSensors :: "MASSensorType option \<Rightarrow> error + nat" where
  "getNumberOfMASSensors sensorInterface =
     (case sensorInterface of
        None \<Rightarrow> Inl NullPointerDereference
      | Some s \<Rightarrow> Inr (length (masSensors s)))"

text \<open>
  \<^verbatim>\<open>getAllSensorsInMASInterface\<close>: the name string of every index below the reported
  count, pushed whatever the name query returned.
\<close>
definition getAllSensorsInMASInterface :: "MASSensorType option \<Rightarrow> error + string list" where
  "getAllSensorsInMASInterface sensorInterface =
     (case sensorInterface of
        None \<Rightarrow> Inl NullPointerDereference
      | Some s \<Rightarrow> Inr (map snd (masSensors s)))"

text \<open>
  The inner loop of \<^verbatim>\<open>checkAttachedMASSensors\<close> over the attached indices
  \<open>0 \<le> attachedIdx < nrSensors\<close>, as a recursion over the answers of \<^verbatim>\<open>getMASSensorName\<close>
  at these indices: the value of \<^verbatim>\<open>sensorFound\<close> when the loop is left.
\<close>
fun sensorFound :: "(bool \<times> string) list \<Rightarrow> string \<Rightarrow> bool" where
  "sensorFound [] masSensorName = False"
| "sensorFound ((named, attachedSensorName) # attached) masSensorName =
     (if \<not> named then sensorFound attached masSensorName
      else if attachedSensorName = masSensorName then True
      else sensorFound attached masSensorName)"

text \<open>
  \<^verbatim>\<open>checkAttachedMASSensors<MASSensorType>\<close>: the returned \<^verbatim>\<open>bool\<close>, and the sensor names
  for which the line \<^verbatim>\<open>Bridge could not attach to MAS Sensor ...\<close> is written to
  \<^verbatim>\<open>std::cerr\<close>, in the order written.
\<close>
definition checkAttachedMASSensors :: "MASSensorType option \<Rightarrow> string list \<Rightarrow> error + bool \<times> string list" where
  "checkAttachedMASSensors sensorInterface sensorList =
     (case getNumberOfMASSensors sensorInterface of
        Inl e \<Rightarrow> Inl e
      | Inr nrSensors \<Rightarrow>
          if nrSensors \<noteq> length sensorList then Inr (False, [])
          else (case sensorInterface of
                  None \<Rightarrow> Inl NullPointerDereference
                | Some s \<Rightarrow>
                    Inr (True,
                      filter (\<lambda>masSensorName. \<not> sensorFound (masSensors s) masSensorName)
                        sensorList)))"

text \<open>
  \<^verbatim>\<open>attachAndCheckMASSensors<MASSensorType>\<close>. Its parameter \<^verbatim>\<open>sensorInterface\<close> is again a
  pointer passed by value, handed on by value to both callees: the check reads the
  pointer the caller passed in, not the one the discovery found.
\<close>
definition attachAndCheckMASSensors ::
  "(PolyDriver \<Rightarrow> bool \<times> MASSensorType option) \<Rightarrow> PolyDriverDescriptor list \<Rightarrow> MASSensorType option
    \<Rightarrow> string list \<Rightarrow> error + bool" where
  "attachAndCheckMASSensors view devList sensorInterface sensorList =
     (if \<not> fst (attachRemappedMASSensor view devList sensorInterface) then Inr False
      else case checkAttachedMASSensors sensorInterface sensorList of
             Inl e \<Rightarrow> Inl e
           | Inr (checked, notFound) \<Rightarrow> if \<not> checked then Inr False else Inr True)"

subsection \<open>Inertial sensors\<close>

text \<open>
  \<^verbatim>\<open>attachAllInertials\<close>. The generic IMU map is passed by reference and comes back in
  the object; the four MAS pointers of \<open>wholeBodyMASInertialsInterface\<close> are passed by
  value, so no assignment to them appears.
\<close>
definition attachAllInertials :: "PolyDriverDescriptor list \<Rightarrow> Impl \<Rightarrow> error + bool \<times> Impl" where
  "attachAllInertials devList impl =
     (let opts = bridgeOptions (metaData impl);
          lists = sensorsList (metaData impl);
          mas = wholeBodyMASInertialsInterface impl;
          (imuAttached, impl1) =
            (if isIMUEnabled opts
             then (case attachAllGenericOrAnalogSensors viewIGenericSensor genericChannels devList
                          (wholeBodyAnalogIMUInterface impl) nrChannelsInYARPGenericIMUSensor (IMUsList lists) of
                     (attached, sensorMap) \<Rightarrow> (attached, impl\<lparr>wholeBodyAnalogIMUInterface := sensorMap\<rparr>))
             else (True, impl))
      in if \<not> imuAttached then Inr (False, impl1)
         else
          (case (if isLinearAccelerometerEnabled opts
                 then attachAndCheckMASSensors viewIThreeAxisLinearAccelerometers devList
                        (accelerometers mas) (linearAccelerometersList lists)
                 else Inr True) of
             Inl e \<Rightarrow> Inl e
           | Inr False \<Rightarrow> Inr (False, impl1)
           | Inr True \<Rightarrow>
          (case (if isGyroscopeEnabled opts
                 then attachAndCheckMASSensors viewIThreeAxisGyroscopes devList
                        (gyroscopes mas) (gyroscopesList lists)
                 else Inr True) of
             Inl e \<Rightarrow> Inl e
           | Inr False \<Rightarrow> Inr (False, impl1)
           | Inr True \<Rightarrow>
          (case (if isOrientationSensorEnabled opts
                 then attachAndCheckMASSensors viewIOrientationSensors devList
                        (orientationSensors mas) (orientationSensorsList lists)
                 else Inr True) of
             Inl e \<Rightarrow> Inl e
           | Inr False \<Rightarrow> Inr (False, impl1)
           | Inr True \<Rightarrow>
          (case (if isMagnetometerEnabled opts
                 then attachAndCheckMASSensors viewIThreeAxisMagnetometers devList
                        (magnetometers mas) (magnetometersList lists)
                 else Inr True) of
             Inl e \<Rightarrow> Inl e
           | Inr False \<Rightarrow> Inr (False, impl1)
           | Inr True \<Rightarrow> Inr (True, impl1))))))"

subsection \<open>Control board\<close>

text \<open>
  \<^verbatim>\<open>configureRemoteControlBoardRemapper\<close>: the joints list is read into the meta data, and
  the number of joints is its size.
\<close>
definition configureRemoteControlBoardRemapper ::
  "IParametersHandler option \<Rightarrow> SensorBridgeMetaData \<Rightarrow> bool \<times> SensorBridgeMetaData" where
  "configureRemoteControlBoardRemapper handler md =
     (case handler of
        None \<Rightarrow> (False, md)
      | Some ptr \<Rightarrow>
          (let md1 = md\<lparr>sensorsList := (sensorsList md)
                          \<lparr>jointsList := snd (getParameterStrings ptr ''joints_list'')\<rparr>\<rparr>
           in if \<not> fst (getParameterStrings ptr ''joints_list'') then (False, md1)
              else (True, md1\<lparr>bridgeOptions := (bridgeOptions md1)
                               \<lparr>nrJoints := length (jointsList (sensorsList md1))\<rparr>\<rparr>)))"

text \<open>
  The discovery loop of \<^verbatim>\<open>attachRemappedRemoteControlBoard\<close>. \<^verbatim>\<open>ok = ok && view(...)\<close>
  calls \<^verbatim>\<open>view\<close> only while \<^verbatim>\<open>ok\<close> holds; a call writes the member pointer, whatever it
  returns. The result is \<^verbatim>\<open>ok\<close> and the two pointers when the loop is left.
\<close>
fun findRemappedRemoteControlBoard ::
  "PolyDriverDescriptor list \<Rightarrow> bool \<Rightarrow> ControlBoardRemapperInterfaces
    \<Rightarrow> bool \<times> ControlBoardRemapperInterfaces" where
  "findRemappedRemoteControlBoard [] ok interfaces = (ok, interfaces)"
| "findRemappedRemoteControlBoard (dev # devList) ok interfaces =
     (let (ok1, interfaces1) =
            (if ok then (fst (viewIAxisInfo (poly dev)),
                         interfaces\<lparr>axis := snd (viewIAxisInfo (poly dev))\<rparr>)
             else (False, interfaces));
          (ok2, interfaces2) =
            (if ok1 then (fst (viewIEncodersTimed (poly dev)),
                          interfaces1\<lparr>encoders := snd (viewIEncodersTimed (poly dev))\<rparr>)
             else (False, interfaces1))
      in if ok2 then (ok2, interfaces2)
         else findRemappedRemoteControlBoard devList ok2 interfaces2)"

definition resetControlBoardBuffers :: "Impl \<Rightarrow> Impl" where
  "resetControlBoardBuffers impl =
     (let n = nrJoints (bridgeOptions (metaData impl))
      in impl\<lparr>controlBoardRemapperMeasures :=
           \<lparr>remappedJointIndices = replicate n 0,
            jointPositions = replicate n 0,
            jointVelocities = replicate n 0\<rparr>\<rparr>)"

text \<open>
  The inner loop of \<^verbatim>\<open>compareControlBoardJointsList\<close>: the first control board index,
  counted from \<open>DOF\<close>, whose joint name equals the desired one; \<open>None\<close> when the loop
  ends with \<^verbatim>\<open>jointFound\<close> still \<^verbatim>\<open>false\<close>.
\<close>
fun findControlBoardJoint :: "string \<Rightarrow> string list \<Rightarrow> nat \<Rightarrow> nat option" where
  "findControlBoardJoint desiredJoint [] DOF = None"
| "findControlBoardJoint desiredJoint (joint # controlBoardJoints) DOF =
     (if desiredJoint = joint then Some DOF
      else findControlBoardJoint desiredJoint controlBoardJoints (Suc DOF))"

text \<open>
  The outer loop over the desired joints, from index \<open>desiredDOF\<close> on: the value of
  \<^verbatim>\<open>jointFound\<close> when the loop is left (by its end, or by the \<^verbatim>\<open>return false\<close> inside)
  and the index buffer. Writing the buffer out of its range is an error.
\<close>
fun remapControlBoardJoints ::
  "string list \<Rightarrow> nat \<Rightarrow> string list \<Rightarrow> bool \<Rightarrow> nat list \<Rightarrow> error + bool \<times> nat list" where
  "remapControlBoardJoints [] desiredDOF controlBoardJoints jointFound indices =
     Inr (jointFound, indices)"
| "remapControlBoardJoints (desiredJoint # desiredJoints) desiredDOF controlBoardJoints jointFound indices =
     (case findControlBoardJoint desiredJoint controlBoardJoints 0 of
        None \<Rightarrow> Inr (False, indices)
      | Some DOF \<Rightarrow>
          if desiredDOF < length indices
          then remapControlBoardJoints desiredJoints (Suc desiredDOF) controlBoardJoints True
                 (indices[desiredDOF := DOF])
          else Inl IndexOutOfRange)"

text \<open>
  \<^verbatim>\<open>compareControlBoardJointsList\<close>. The names of the control board joints are read
  through the two member pointers; both are dereferenced (the axis pointer only when
  the board reports at least one axis). The last loop of the function only prints the
  indices it found.
\<close>
definition compareControlBoardJointsList :: "Impl \<Rightarrow> error + bool \<times> Impl" where
  "compareControlBoardJointsList impl =
     (case encoders (controlBoardRemapperInterfaces impl) of
        None \<Rightarrow> Inl NullPointerDereference
      | Some enc \<Rightarrow>
          (let controlBoardDOFs = getAxes enc in
           case (if controlBoardDOFs \<le> 0 then Inr []
                 else (case axis (controlBoardRemapperInterfaces impl) of
                         None \<Rightarrow> Inl NullPointerDereference
                       | Some ax \<Rightarrow> Inr (map (getAxisName ax) [0 ..< nat controlBoardDOFs]))) of
             Inl e \<Rightarrow> Inl e
           | Inr controlBoardJoints \<Rightarrow>
               (case remapControlBoardJoints (jointsList (sensorsList (metaData impl))) 0 controlBoardJoints
                       False (remappedJointIndices (controlBoardRemapperMeasures impl)) of
                  Inl e \<Rightarrow> Inl e
                | Inr (jointFound, indices) \<Rightarrow>
                    Inr (jointFound,
                         impl\<lparr>controlBoardRemapperMeasures :=
                           (controlBoardRemapperMeasures impl)\<lparr>remappedJointIndices := indices\<rparr>\<rparr>))))"

definition attachRemappedRemoteControlBoard :: "PolyDriverDescriptor list \<Rightarrow> Impl \<Rightarrow> error + bool \<times> Impl" where
  "attachRemappedRemoteControlBoard devList impl =
     (if \<not> isKinematicsEnabled (bridgeOptions (metaData impl)) then Inr (True, impl)
      else case findRemappedRemoteControlBoard devList True (controlBoardRemapperInterfaces impl) of
        (ok, interfaces) \<Rightarrow>
          let impl1 = impl\<lparr>controlBoardRemapperInterfaces := interfaces\<rparr> in
          if \<not> ok then Inr (False, impl1)
          else compareControlBoardJointsList (resetControlBoardBuffers impl1))"

subsection \<open>Six axis force torque sensors and cartesian wrenches\<close>

text \<open>
  \<^verbatim>\<open>std::set_intersection\<close> on two sorted ranges, as the standard defines it: advance in
  the range with the smaller head; on equal heads copy the element of the first range
  and advance in both.
\<close>
fun set_intersection :: "string list \<Rightarrow> string list \<Rightarrow> string list" where
  "set_intersection (x # xs) (y # ys) =
     (if x < y then set_intersection xs (y # ys)
      else if y < x then set_intersection (x # xs) ys
      else x # set_intersection xs ys)"
| "set_intersection [] ys = []"
| "set_intersection xs [] = []"

text \<open>
  The local \<^verbatim>\<open>analogFTSensors\<close> of \<^verbatim>\<open>attachAllSixAxisForceTorqueSensors\<close> when it is handed
  to the analog attachment: the names that are attached through \<^verbatim>\<open>IAnalogSensor\<close>.
  \<^verbatim>\<open>std::sort\<close> orders strings by \<^verbatim>\<open>operator<\<close>, the lexicographic order on bytes. The
  sensor names are read through the member pointer, which the discovery was given by
  value.
\<close>
definition analogFTSensors :: "PolyDriverDescriptor list \<Rightarrow> Impl \<Rightarrow> error + string list" where
  "analogFTSensors devList impl =
     (if fst (attachRemappedMASSensor viewISixAxisForceTorqueSensors devList
                (sixAxisFTSensors (wholeBodyMASForceTorquesInterface impl)))
      then (case getAllSensorsInMASInterface (sixAxisFTSensors (wholeBodyMASForceTorquesInterface impl)) of
              Inl e \<Rightarrow> Inl e
            | Inr MASFTs \<Rightarrow>
                Inr (set_intersection (sort MASFTs)
                       (sort (sixAxisForceTorqueSensorsList (sensorsList (metaData impl))))))
      else Inr (sixAxisForceTorqueSensorsList (sensorsList (metaData impl))))"

definition attachAllSixAxisForceTorqueSensors :: "PolyDriverDescriptor list \<Rightarrow> Impl \<Rightarrow> error + bool \<times> Impl" where
  "attachAllSixAxisForceTorqueSensors devList impl =
     (if \<not> isSixAxisForceTorqueSensorEnabled (bridgeOptions (metaData impl)) then Inr (True, impl)
      else (case analogFTSensors devList impl of
              Inl e \<Rightarrow> Inl e
            | Inr analogFTs \<Rightarrow>
                (case attachAllGenericOrAnalogSensors viewIAnalogSensor analogChannels devList
                        (wholeBodyAnalogSixAxisFTSensorsInterface impl)
                        nrChannelsInYARPAnalogSixAxisFTSensor analogFTs of
                   (attached, sensorMap) \<Rightarrow>
                     Inr (attached, impl\<lparr>wholeBodyAnalogSixAxisFTSensorsInterface := sensorMap\<rparr>))))"

definition attachCartesianWrenchInterface :: "PolyDriverDescriptor list \<Rightarrow> Impl \<Rightarrow> bool \<times> Impl" where
  "attachCartesianWrenchInterface devList impl =
     (if \<not> isCartesianWrenchEnabled (bridgeOptions (metaData impl)) then (True, impl)
      else (case attachAllGenericOrAnalogSensors viewIGenericSensor genericChannels devList
                   (wholeBodyCartesianWrenchInterface impl)
                   nrChannelsInYARPGenericCartesianWrench
                   (cartesianWrenchesList (sensorsList (metaData impl))) of
              (attached, sensorMap) \<Rightarrow>
                (attached, impl\<lparr>wholeBodyCartesianWrenchInterface := sensorMap\<rparr>)))"

subsection \<open>Cameras\<close>

text \<open>
  \<^verbatim>\<open>attachCamera<CameraType>\<close>: a device with the camera's key whose \<^verbatim>\<open>view\<close> returns
  \<^verbatim>\<open>false\<close> is passed over.
\<close>
fun attachCamera ::
  "(PolyDriver \<Rightarrow> bool \<times> 'c option) \<Rightarrow> PolyDriverDescriptor list \<Rightarrow> string \<Rightarrow> (string \<rightharpoonup> 'c)
    \<Rightarrow> bool \<times> (string \<rightharpoonup> 'c)" where
  "attachCamera view [] sensorName sensorMap = (True, sensorMap)"
| "attachCamera view (dev # devList) sensorName sensorMap =
     (if sensorName \<noteq> key dev then attachCamera view devList sensorName sensorMap
      else if fst (view (poly dev))
      then (case snd (view (poly dev)) of
              None \<Rightarrow> (False, sensorMap)
            | Some cameraInterface \<Rightarrow>
                attachCamera view devList sensorName (sensorMap(key dev \<mapsto> cameraInterface)))
      else attachCamera view devList sensorName sensorMap)"

text \<open>The first loop of \<^verbatim>\<open>attachAllCamerasOfSpecificType\<close>.\<close>
fun attachEachCamera ::
  "(PolyDriver \<Rightarrow> bool \<times> 'c option) \<Rightarrow> PolyDriverDescriptor list \<Rightarrow> string list \<Rightarrow> (string \<rightharpoonup> 'c)
    \<Rightarrow> bool \<times> (string \<rightharpoonup> 'c)" where
  "attachEachCamera view devList [] sensorMap = (True, sensorMap)"
| "attachEachCamera view devList (cam # camList) sensorMap =
     (case attachCamera view devList cam sensorMap of
        (False, sensorMap') \<Rightarrow> (False, sensorMap')
      | (True, sensorMap') \<Rightarrow> attachEachCamera view devList camList sensorMap')"

text \<open>
  \<^verbatim>\<open>resizeImageBuffers\<close>: one pass over the camera list that looks the dimensions of a
  camera up and resizes its buffer before it turns to the next camera.
\<close>
fun resizeImageBuffers ::
  "string list \<Rightarrow> (string \<rightharpoonup> int \<times> int) \<Rightarrow> (string \<rightharpoonup> int \<times> int)
    \<Rightarrow> bool \<times> (string \<rightharpoonup> int \<times> int)" where
  "resizeImageBuffers [] imgDimensionsMap imgBuffersMap = (True, imgBuffersMap)"
| "resizeImageBuffers (cam # camList) imgDimensionsMap imgBuffersMap =
     (case imgDimensionsMap cam of
        None \<Rightarrow> (False, imgBuffersMap)
      | Some imgDim \<Rightarrow>
          resizeImageBuffers camList imgDimensionsMap (imgBuffersMap(cam \<mapsto> (fst imgDim, snd imgDim))))"

text \<open>
  \<^verbatim>\<open>attachAllCamerasOfSpecificType<CameraType>\<close>: the result, the camera map and the image
  buffers.
\<close>
definition attachAllCamerasOfSpecificType ::
  "(PolyDriver \<Rightarrow> bool \<times> 'c option) \<Rightarrow> PolyDriverDescriptor list \<Rightarrow> string list
    \<Rightarrow> (string \<rightharpoonup> int \<times> int) \<Rightarrow> (string \<rightharpoonup> 'c) \<Rightarrow> (string \<rightharpoonup> int \<times> int)
    \<Rightarrow> bool \<times> (string \<rightharpoonup> 'c) \<times> (string \<rightharpoonup> int \<times> int)" where
  "attachAllCamerasOfSpecificType view devList camList imgDimensionsMap sensorMap imgBuffersMap =
     (case attachEachCamera view devList camList sensorMap of
        (False, sensorMap') \<Rightarrow> (False, sensorMap', imgBuffersMap)
      | (True, sensorMap') \<Rightarrow>
          if card (dom sensorMap') \<noteq> length camList then (False, sensorMap', imgBuffersMap)
          else (case resizeImageBuffers camList imgDimensionsMap imgBuffersMap of
                  (resized, imgBuffersMap') \<Rightarrow> (resized, sensorMap', imgBuffersMap')))"

definition attachAllCameras :: "PolyDriverDescriptor list \<Rightarrow> Impl \<Rightarrow> bool \<times> Impl" where
  "attachAllCameras devList impl =
     (if \<not> isCameraEnabled (bridgeOptions (metaData impl)) then (True, impl)
      else (case attachAllCamerasOfSpecificType viewIFrameGrabberImage devList
                   (rgbCamerasList (sensorsList (metaData impl)))
                   (imgDimensions (bridgeOptions (metaData impl)))
                   (wholeBodyFrameGrabberInterface impl) (wholeBodyCameraImages impl) of
              (rgbAttached, rgbMap, images1) \<Rightarrow>
                (let impl1 = impl\<lparr>wholeBodyFrameGrabberInterface := rgbMap, wholeBodyCameraImages := images1\<rparr>
                 in if \<not> rgbAttached then (False, impl1)
                    else (case attachAllCamerasOfSpecificType viewIRGBDSensor devList
                                 (depthCamerasList (sensorsList (metaData impl)))
                                 (imgDimensions (bridgeOptions (metaData impl)))
                                 (wholeBodyRGBDInterface impl1) (wholeBodyCameraImages impl1) of
                            (depthAttached, depthMap, images2) \<Rightarrow>
                              (depthAttached,
                               impl1\<lparr>wholeBodyRGBDInterface := depthMap, wholeBodyCameraImages := images2\<rparr>)))))"

subsection \<open>Camera configuration\<close>

text \<open>The two messages \<^verbatim>\<open>configureCameras\<close> writes to \<^verbatim>\<open>std::cerr\<close>.\<close>
datatype message =
    RequiredParameterNotAvailable string
  | ParametersListSizeMismatch

text \<open>The loops that store one pair of dimensions per camera, by position.\<close>
fun storeImgDimensions ::
  "string list \<Rightarrow> int list \<Rightarrow> int list \<Rightarrow> (string \<rightharpoonup> int \<times> int) \<Rightarrow> (string \<rightharpoonup> int \<times> int)" where
  "storeImgDimensions (cameraName # cameras) (w # widths) (h # heights) dims =
     storeImgDimensions cameras widths heights (dims(cameraName \<mapsto> (w, h)))"
| "storeImgDimensions cameras widths heights dims = dims"

text \<open>
  One of the two blocks of \<^verbatim>\<open>configureCameras\<close> (RGB, depth), after its camera list has
  been read: the names of the width and height parameters and the cameras are the
  arguments. The result is \<open>Inl\<close> of the message at a \<^verbatim>\<open>return false\<close>, else the image
  dimensions.
\<close>
definition configureImgDimensions ::
  "IParametersHandler \<Rightarrow> string \<Rightarrow> string \<Rightarrow> string list \<Rightarrow> (string \<rightharpoonup> int \<times> int)
    \<Rightarrow> message + (string \<rightharpoonup> int \<times> int)" where
  "configureImgDimensions ptr widthName heightName cameras dims =
     (if fst (getParameterInts ptr widthName) then Inl (RequiredParameterNotAvailable widthName)
      else if fst (getParameterInts ptr heightName) then Inl (RequiredParameterNotAvailable heightName)
      else (let width = snd (getParameterInts ptr widthName);
                height = snd (getParameterInts ptr heightName)
            in if length width \<noteq> length cameras \<or> length height \<noteq> length cameras
               then Inl ParametersListSizeMismatch
               else Inr (storeImgDimensions cameras width height dims)))"

text \<open>
  \<^verbatim>\<open>configureCameras\<close>: the result, the message written to \<^verbatim>\<open>std::cerr\<close> if any, and the
  meta data, which keeps what was stored before a \<^verbatim>\<open>return false\<close>. An expired handler
  is \<open>None\<close>.
\<close>
definition configureCameras ::
  "IParametersHandler option \<Rightarrow> SensorBridgeMetaData \<Rightarrow> bool \<times> message option \<times> SensorBridgeMetaData" where
  "configureCameras handler md =
     (case handler of
        None \<Rightarrow> (False, None, md)
      | Some ptr \<Rightarrow>
          (case (if fst (getParameterStrings ptr ''rgb_cameras_list'')
                 then (let md1 = md\<lparr>sensorsList := (sensorsList md)
                                     \<lparr>rgbCamerasList := snd (getParameterStrings ptr ''rgb_cameras_list'')\<rparr>,
                                   bridgeOptions := (bridgeOptions md)\<lparr>isCameraEnabled := True\<rparr>\<rparr>
                       in (case configureImgDimensions ptr ''rgb_image_width'' ''rgb_image_height''
                                  (rgbCamerasList (sensorsList md1)) (imgDimensions (bridgeOptions md1)) of
                             Inl msg \<Rightarrow> Inl (msg, md1)
                           | Inr dims \<Rightarrow>
                               Inr (md1\<lparr>bridgeOptions := (bridgeOptions md1)\<lparr>imgDimensions := dims\<rparr>\<rparr>)))
                 else Inr md) of
             Inl (msg, md1) \<Rightarrow> (False, Some msg, md1)
           | Inr md2 \<Rightarrow>
               (if fst (getParameterStrings ptr ''depth_cameras_list'')
                then (let md3 = md2\<lparr>sensorsList := (sensorsList md2)
                                     \<lparr>depthCamerasList := snd (getParameterStrings ptr ''depth_cameras_list'')\<rparr>,
                                   bridgeOptions := (bridgeOptions md2)\<lparr>isCameraEnabled := True\<rparr>\<rparr>
                      in (case configureImgDimensions ptr ''depth_image_width'' ''depth_image_height''
                                 (depthCamerasList (sensorsList md3)) (imgDimensions (bridgeOptions md3)) of
                            Inl msg \<Rightarrow> (False, Some msg, md3)
                          | Inr dims \<Rightarrow>
                              (True, None, md3\<lparr>bridgeOptions := (bridgeOptions md3)\<lparr>imgDimensions := dims\<rparr>\<rparr>)))
                else (True, None, md2))))"

subsection \<open>Bridge state, attachment and reads\<close>

text \<open>
  Modelled from the spec: the states of the bridge. The implementation header holds only
  the two flags \<open>bridgeInitialized\<close> and \<open>driversAttached\<close> and the gate \<open>checkValid\<close>; the
  functions that load the configuration, attach the devices and read the buffers are
  not part of it.
\<close>
datatype BridgeState = Uninitialized | Initialized | Attached | Invalid

text \<open>
  Modelled from the spec: the operations on the bridge, which the implementation header
  does not contain. Loading the configuration and attaching the devices carry their
  outcome (whether the load succeeded, whether every enabled category attached); a
  read carries the name of the reading method.
\<close>
datatype operation = LoadConfiguration bool | AttachDevices bool | Read string

text \<open>
  Modelled from the spec: the transitions of the bridge state, absent from the
  implementation header. A successful configuration load takes \<open>Uninitialized\<close> to
  \<open>Initialized\<close>; in \<open>Uninitialized\<close> every other operation fails and changes nothing; from
  the other states a successful attachment leads to \<open>Attached\<close> and a failed one to
  \<open>Invalid\<close>, from which only a new attachment recovers; a read changes nothing.
\<close>
fun nextBridgeState :: "BridgeState \<Rightarrow> operation \<Rightarrow> BridgeState" where
  "nextBridgeState Uninitialized (LoadConfiguration True) = Initialized"
| "nextBridgeState s (LoadConfiguration loaded) = s"
| "nextBridgeState Uninitialized (AttachDevices attached) = Uninitialized"
| "nextBridgeState s (AttachDevices True) = Attached"
| "nextBridgeState s (AttachDevices False) = Invalid"
| "nextBridgeState s (Read methodName) = s"

text \<open>
  Modelled from the spec: the function that loads the configuration, absent from the
  implementation header. It is valid only before a configuration has been loaded; when
  the load succeeds it sets \<open>bridgeInitialized\<close>, the flag the header documents as set
  when the bridge is successfully initialized.
\<close>
definition initialize :: "bool \<Rightarrow> Impl \<Rightarrow> bool \<times> Impl" where
  "initialize loaded impl =
     (if bridgeInitialized impl \<or> \<not> loaded then (False, impl)
      else (True, impl\<lparr>bridgeInitialized := True\<rparr>))"

text \<open>
  Modelled from the spec: the function that attaches the device list, absent from the
  implementation header. It fails without effect before the configuration is loaded;
  otherwise \<open>driversAttached\<close>, the flag the header documents as set when the bridge is
  successfully attached, is set when every enabled category attached and cleared when
  an attachment step failed.
\<close>
definition setDriversList :: "bool \<Rightarrow> Impl \<Rightarrow> bool \<times> Impl" where
  "setDriversList attached impl =
     (if \<not> bridgeInitialized impl then (False, impl)
      else if attached then (True, impl\<lparr>driversAttached := True\<rparr>)
      else (False, impl\<lparr>driversAttached := False\<rparr>))"

text \<open>
  Modelled from the spec: an exposed read operation, absent from the implementation
  header, up to the point where it has passed the gate. It calls \<open>checkValid\<close> with its
  own name and fails with the message of the gate when the gate rejects.
\<close>
datatype readResult = NotReady string | PassedGate

definition exposedRead :: "string \<Rightarrow> Impl \<Rightarrow> readResult" where
  "exposedRead methodName impl =
     (case checkValid methodName impl of
        (False, notReady) \<Rightarrow> NotReady notReady
      | (True, notReady) \<Rightarrow> PassedGate)"

text \<open>
  Modelled from the spec: the effect of one operation on the implementation object,
  through the three functions above.
\<close>
fun applyOperation :: "Impl \<Rightarrow> operation \<Rightarrow> Impl" where
  "applyOperation impl (LoadConfiguration loaded) = snd (initialize loaded impl)"
| "applyOperation impl (AttachDevices attached) = snd (setDriversList attached impl)"
| "applyOperation impl (Read methodName) = impl"

subsection \<open>Example devices and states\<close>

text \<open>
  Concrete inputs for the examples below. \<open>noInterfaces\<close> is a driver that implements
  none of the interfaces: every \<^verbatim>\<open>view\<close> returns \<^verbatim>\<open>false\<close> and leaves a null pointer.
  \<open>defaultImpl\<close> is an implementation object before any configuration: no category
  enabled, empty lists and maps, null pointers, both flags \<^verbatim>\<open>false\<close>.
\<close>
definition noInterfaces :: PolyDriver where
  "noInterfaces =
     \<lparr>viewIGenericSensor = (False, None), viewIAnalogSensor = (False, None),
      viewIThreeAxisLinearAccelerometers = (False, None), viewIThreeAxisGyroscopes = (False, None),
      viewIThreeAxisMagnetometers = (False, None), viewIOrientationSensors = (False, None),
      viewISixAxisForceTorqueSensors = (False, None), viewIEncodersTimed = (False, None),
      viewIAxisInfo = (False, None), viewIFrameGrabberImage = (False, None),
      viewIRGBDSensor = (False, None)\<rparr>"

definition defaultMetaData :: SensorBridgeMetaData where
  "defaultMetaData =
     \<lparr>sensorsList =
        \<lparr>jointsList = [], IMUsList = [], linearAccelerometersList = [], gyroscopesList = [],
         orientationSensorsList = [], magnetometersList = [], sixAxisForceTorqueSensorsList = [],
         cartesianWrenchesList = [], rgbCamerasList = [], depthCamerasList = []\<rparr>,
      bridgeOptions =
        \<lparr>isKinematicsEnabled = False, isIMUEnabled = False, isLinearAccelerometerEnabled = False,
         isGyroscopeEnabled = False, isOrientationSensorEnabled = False, isMagnetometerEnabled = False,
         isSixAxisForceTorqueSensorEnabled = False, isCartesianWrenchEnabled = False,
         isCameraEnabled = False, nrJoints = 0, imgDimensions = Map.empty\<rparr>\<rparr>"

definition defaultImpl :: Impl where
  "defaultImpl =
     \<lparr>controlBoardRemapperInterfaces = \<lparr>encoders = None, axis = None\<rparr>,
      wholeBodyMASInertialsInterface =
        \<lparr>accelerometers = None, gyroscopes = None, magnetometers = None, orientationSensors = None\<rparr>,
      wholeBodyMASForceTorquesInterface = \<lparr>sixAxisFTSensors = None\<rparr>,
      wholeBodyAnalogIMUInterface = Map.empty,
      wholeBodyCartesianWrenchInterface = Map.empty,
      wholeBodyAnalogSixAxisFTSensorsInterface = Map.empty,
      wholeBodyFrameGrabberInterface = Map.empty,
      wholeBodyRGBDInterface = Map.empty,
      controlBoardRemapperMeasures =
        \<lparr>remappedJointIndices = [], jointPositions = [], jointVelocities = []\<rparr>,
      wholeBodyCameraImages = Map.empty,
      metaData = defaultMetaData,
      bridgeInitialized = False,
      driversAttached = False\<rparr>"

text \<open>A generic sensor device with twelve channels under the key \<open>imu0\<close>.\<close>
definition imu0 :: PolyDriverDescriptor where
  "imu0 = \<lparr>key = ''imu0'',
            poly = noInterfaces\<lparr>viewIGenericSensor := (True, Some (IGenericSensor 12))\<rparr>\<rparr>"


text \<open>A bridge configured for the one generic IMU \<open>imu0\<close>.\<close>
definition imuImpl :: Impl where
  "imuImpl = defaultImpl
     \<lparr>metaData := defaultMetaData
        \<lparr>sensorsList := (sensorsList defaultMetaData)\<lparr>IMUsList := [''imu0'']\<rparr>,
         bridgeOptions := (bridgeOptions defaultMetaData)\<lparr>isIMUEnabled := True\<rparr>\<rparr>\<rparr>"

text \<open>
  A control board with three axes (\<open>knee\<close>, \<open>hip\<close>, \<open>ankle\<close>) that gives both views, and
  a bridge configured for the joints \<open>hip\<close>, \<open>knee\<close>.
\<close>
definition controlBoard :: PolyDriverDescriptor where
  "controlBoard = \<lparr>key = ''controlboard'',
     poly = noInterfaces
       \<lparr>viewIEncodersTimed := (True, Some (IEncodersTimed 3)),
        viewIAxisInfo := (True, Some (IAxisInfo (\<lambda>DOF. [''knee'', ''hip'', ''ankle''] ! DOF)))\<rparr>\<rparr>"

definition kinematicsImpl :: Impl where
  "kinematicsImpl = defaultImpl
     \<lparr>metaData := defaultMetaData
        \<lparr>sensorsList := (sensorsList defaultMetaData)\<lparr>jointsList := [''hip'', ''knee'']\<rparr>,
         bridgeOptions := (bridgeOptions defaultMetaData)\<lparr>isKinematicsEnabled := True, nrJoints := 2\<rparr>\<rparr>\<rparr>"

text \<open>Two frame grabbers under the keys \<open>cam0\<close> and \<open>cam1\<close>.\<close>
definition cam0 :: PolyDriverDescriptor where
  "cam0 = \<lparr>key = ''cam0'',
            poly = noInterfaces\<lparr>viewIFrameGrabberImage := (True, Some (IFrameGrabberImage 0))\<rparr>\<rparr>"
definition cam1 :: PolyDriverDescriptor where
  "cam1 = \<lparr>key = ''cam1'',
            poly = noInterfaces\<lparr>viewIFrameGrabberImage := (True, Some (IFrameGrabberImage 1))\<rparr>\<rparr>"

text \<open>
  The six axis force torque scenario: the MAS interface reports the one sensor
  \<open>r_leg_ft\<close>, an analog sensor with six channels has the key \<open>r_foot_ft\<close>, and the
  configured list is \<open>r_leg_ft\<close>, \<open>r_foot_ft\<close>. The member pointer of the bridge already
  points to the MAS interface.
\<close>
definition ftAggregate :: MASSensorType where
  "ftAggregate = MASSensorType [(True, ''r_leg_ft'')]"

definition ftDevList :: "PolyDriverDescriptor list" where
  "ftDevList =
     [\<lparr>key = ''mas-remapper'',
       poly = noInterfaces\<lparr>viewISixAxisForceTorqueSensors := (True, Some ftAggregate)\<rparr>\<rparr>,
      \<lparr>key = ''r_foot_ft'',
       poly = noInterfaces\<lparr>viewIAnalogSensor := (True, Some (IAnalogSensor 6))\<rparr>\<rparr>]"

definition ftImpl :: Impl where
  "ftImpl = defaultImpl
     \<lparr>wholeBodyMASForceTorquesInterface := \<lparr>sixAxisFTSensors = Some ftAggregate\<rparr>,
      metaData := defaultMetaData
        \<lparr>sensorsList := (sensorsList defaultMetaData)
           \<lparr>sixAxisForceTorqueSensorsList := [''r_leg_ft'', ''r_foot_ft'']\<rparr>,
         bridgeOptions := (bridgeOptions defaultMetaData)
           \<lparr>isSixAxisForceTorqueSensorEnabled := True\<rparr>\<rparr>\<rparr>"

text \<open>
  The gyroscope scenario: the MAS interface reports the one sensor \<open>r_leg_gyro\<close>, the
  configured list is \<open>r_leg_ft_gyro\<close>. In \<open>gyroImpl\<close> the member pointer of the bridge
  points to that interface; in \<open>staleGyroImpl\<close> it points to another interface, which
  reports two sensors.
\<close>
definition gyroAggregate :: MASSensorType where
  "gyroAggregate = MASSensorType [(True, ''r_leg_gyro'')]"

definition gyroDevList :: "PolyDriverDescriptor list" where
  "gyroDevList =
     [\<lparr>key = ''mas-remapper'',
       poly = noInterfaces\<lparr>viewIThreeAxisGyroscopes := (True, Some gyroAggregate)\<rparr>\<rparr>]"

definition gyroImpl :: Impl where
  "gyroImpl = defaultImpl
     \<lparr>wholeBodyMASInertialsInterface := (wholeBodyMASInertialsInterface defaultImpl)
        \<lparr>gyroscopes := Some gyroAggregate\<rparr>,
      metaData := defaultMetaData
        \<lparr>sensorsList := (sensorsList defaultMetaData)\<lparr>gyroscopesList := [''r_leg_ft_gyro'']\<rparr>,
         bridgeOptions := (bridgeOptions defaultMetaData)\<lparr>isGyroscopeEnabled := True\<rparr>\<rparr>\<rparr>"

definition staleGyroImpl :: Impl where
  "staleGyroImpl = gyroImpl
     \<lparr>wholeBodyMASInertialsInterface := (wholeBodyMASInertialsInterface defaultImpl)
        \<lparr>gyroscopes := Some (MASSensorType [(True, ''old_gyro''), (True, ''older_gyro'')])\<rparr>\<rparr>"

text \<open>
  Three camera configurations: two cameras with two widths and one height; two cameras
  with two widths and two heights; an empty camera list without the width and height
  parameters.
\<close>
definition scenarioHandler :: IParametersHandler where
  "scenarioHandler =
     \<lparr>getParameterStrings = (\<lambda>name. if name = ''rgb_cameras_list'' then (True, [''cam0'', ''cam1''])
                                     else (False, [])),
      getParameterInts = (\<lambda>name. if name = ''rgb_image_width'' then (True, [640, 320])
                                  else if name = ''rgb_image_height'' then (True, [480])
                                  else (False, []))\<rparr>"

definition consistentHandler :: IParametersHandler where
  "consistentHandler =
     \<lparr>getParameterStrings = (\<lambda>name. if name = ''rgb_cameras_list'' then (True, [''cam0'', ''cam1''])
                                     else (False, [])),
      getParameterInts = (\<lambda>name. if name = ''rgb_image_width'' then (True, [640, 320])
                                  else if name = ''rgb_image_height'' then (True, [480, 240])
                                  else (False, []))\<rparr>"

definition noDimensionsHandler :: IParametersHandler where
  "noDimensionsHandler =
     \<lparr>getParameterStrings = (\<lambda>name. if name = ''rgb_cameras_list'' then (True, [])
                                     else (False, [])),
      getParameterInts = (\<lambda>name. (False, []))\<rparr>"

section \<open>Properties\<close>

subsection \<open>The validity gate\<close>

lemma checkValid_result:
  "checkValid methodName impl =
     (if bridgeInitialized impl \<and> driversAttached impl then (True, '''')
      else (False, methodName @ '' SensorBridge is not ready. Please initialize and set drivers list.''))"
  by (simp add: checkValid_def)

lemma applyOperation_state:
  assumes "st = Uninitialized \<longleftrightarrow> \<not> bridgeInitialized impl"
    and "st = Attached \<longleftrightarrow> driversAttached impl"
    and "driversAttached impl \<longrightarrow> bridgeInitialized impl"
  shows "(nextBridgeState st op = Uninitialized \<longleftrightarrow> \<not> bridgeInitialized (applyOperation impl op))
     \<and> (nextBridgeState st op = Attached \<longleftrightarrow> driversAttached (applyOperation impl op))
     \<and> (driversAttached (applyOperation impl op) \<longrightarrow> bridgeInitialized (applyOperation impl op))"
proof (cases op)
  case (LoadConfiguration loaded)
  then show ?thesis using assms
    by (cases st; cases loaded) (auto simp: initialize_def)
next
  case (AttachDevices attached)
  then show ?thesis using assms
    by (cases st; cases attached) (auto simp: setDriversList_def)
next
  case (Read methodName)
  then show ?thesis using assms by simp
qed

lemma runOperations_state:
  assumes "\<not> bridgeInitialized impl" and "\<not> driversAttached impl"
  shows "(foldl nextBridgeState Uninitialized ops = Uninitialized \<longleftrightarrow>
            \<not> bridgeInitialized (foldl applyOperation impl ops))
     \<and> (foldl nextBridgeState Uninitialized ops = Attached \<longleftrightarrow>
           driversAttached (foldl applyOperation impl ops))
     \<and> (driversAttached (foldl applyOperation impl ops) \<longrightarrow>
           bridgeInitialized (foldl applyOperation impl ops))"
proof (induction ops rule: rev_induct)
  case Nil
  then show ?case using assms by simp
next
  case (snoc op ops)
  then show ?case
    using applyOperation_state [of "foldl nextBridgeState Uninitialized ops" "foldl applyOperation impl ops" op]
    by simp
qed

text \<open>
  C8. Start from a bridge with both flags unset and apply any sequence of operations
  (configuration loads and device attachments, each succeeding or failing, and reads).
  A read after the sequence passes the validity check exactly when the bridge state is
  \<open>Attached\<close>; in every other state (no successful initialization, no successful
  attachment, or a failed attachment last) it fails with the message that names the
  reading method and says that the bridge is not ready. In particular a read after a
  failed attachment or re-attachment fails.
\<close>
theorem exposedRead_gated_by_bridge_state:
  assumes "\<not> bridgeInitialized impl" and "\<not> driversAttached impl"
  shows "exposedRead methodName (foldl applyOperation impl ops) =
       (if foldl nextBridgeState Uninitialized ops = Attached then PassedGate
        else NotReady (methodName @ '' SensorBridge is not ready. Please initialize and set drivers list.''))
     \<and> (fst (checkValid methodName (foldl applyOperation impl ops)) \<longleftrightarrow>
          foldl nextBridgeState Uninitialized ops = Attached)
     \<and> exposedRead methodName (foldl applyOperation impl (ops @ [AttachDevices False])) =
          NotReady (methodName @ '' SensorBridge is not ready. Please initialize and set drivers list.'')"
proof -
  have gate: "exposedRead methodName (foldl applyOperation impl os) =
       (if foldl nextBridgeState Uninitialized os = Attached then PassedGate
        else NotReady (methodName @ '' SensorBridge is not ready. Please initialize and set drivers list.''))"
    for os
    using runOperations_state [OF assms, of os]
    by (auto simp: exposedRead_def checkValid_result)
  have valid: "fst (checkValid methodName (foldl applyOperation impl ops)) \<longleftrightarrow>
          foldl nextBridgeState Uninitialized ops = Attached"
    using runOperations_state [OF assms, of ops] by (auto simp: checkValid_result)
  have "foldl nextBridgeState Uninitialized (ops @ [AttachDevices False]) \<noteq> Attached"
    by (cases "foldl nextBridgeState Uninitialized ops") simp_all
  then have "exposedRead methodName (foldl applyOperation impl (ops @ [AttachDevices False])) =
          NotReady (methodName @ '' SensorBridge is not ready. Please initialize and set drivers list.'')"
    by (simp only: gate if_False)
  then show ?thesis using gate [of ops] valid by simp
qed

theorem exposedRead_gated_by_bridge_state_witness:
  "\<not> bridgeInitialized defaultImpl \<and> \<not> driversAttached defaultImpl
   \<and> foldl nextBridgeState Uninitialized [LoadConfiguration True, AttachDevices True] = Attached
   \<and> exposedRead ''getJointPosition'' (foldl applyOperation defaultImpl [LoadConfiguration True, AttachDevices True])
        = PassedGate
   \<and> foldl nextBridgeState Uninitialized [AttachDevices True, LoadConfiguration True] = Initialized
   \<and> exposedRead ''getJointPosition'' (foldl applyOperation defaultImpl [AttachDevices True, LoadConfiguration True])
        = NotReady ''getJointPosition SensorBridge is not ready. Please initialize and set drivers list.''
   \<and> exposedRead ''getJointPosition''
        (foldl applyOperation defaultImpl ([LoadConfiguration True, AttachDevices True] @ [AttachDevices False]))
        = NotReady ''getJointPosition SensorBridge is not ready. Please initialize and set drivers list.''"
proof -
  have i: "\<not> bridgeInitialized defaultImpl" by (simp add: defaultImpl_def)
  have a: "\<not> driversAttached defaultImpl" by (simp add: defaultImpl_def)
  have s1: "foldl nextBridgeState Uninitialized [LoadConfiguration True, AttachDevices True] = Attached"
    by simp
  have s2: "foldl nextBridgeState Uninitialized [AttachDevices True, LoadConfiguration True] = Initialized"
    by simp
  show ?thesis
    using i a s1 s2
      exposedRead_gated_by_bridge_state [OF i a, of "''getJointPosition''" "[LoadConfiguration True, AttachDevices True]"]
      exposedRead_gated_by_bridge_state [OF i a, of "''getJointPosition''" "[AttachDevices True, LoadConfiguration True]"]
    by simp
qed

subsection \<open>Generic and analog sensors\<close>

lemma attachGenericOrAnalogSensor_fst:
  "fst (attachGenericOrAnalogSensor view gc devList n nr m) \<longleftrightarrow>
     (\<forall>d\<in>set devList. key d = n \<longrightarrow>
        fst (view (poly d)) \<and> (\<exists>i. snd (view (poly d)) = Some i \<and> gc i = nr))"
  by (induction devList arbitrary: m) (auto split: option.splits)

lemma attachGenericOrAnalogSensor_dom:
  "fst (attachGenericOrAnalogSensor view gc devList n nr m) \<Longrightarrow>
   dom (snd (attachGenericOrAnalogSensor view gc devList n nr m)) =
     dom m \<union> (if \<exists>d\<in>set devList. key d = n then {n} else {})"
proof (induction devList arbitrary: m)
  case Nil
  then show ?case by simp
next
  case (Cons dev devList)
  show ?case
  proof (cases "n = key dev")
    case False
    then show ?thesis using Cons.prems Cons.IH [of m] by auto
  next
    case True
    from Cons.prems True obtain i where i: "fst (view (poly dev))" "snd (view (poly dev)) = Some i" "gc i = nr"
      by (auto split: option.splits if_splits)
    then have step: "attachGenericOrAnalogSensor view gc (dev # devList) n nr m =
        attachGenericOrAnalogSensor view gc devList n nr (m(n \<mapsto> i))"
      using True by simp
    with Cons.prems have "fst (attachGenericOrAnalogSensor view gc devList n nr (m(n \<mapsto> i)))"
      by simp
    from Cons.IH [OF this] have "dom (snd (attachGenericOrAnalogSensor view gc devList n nr (m(n \<mapsto> i)))) =
        dom (m(n \<mapsto> i)) \<union> (if \<exists>d\<in>set devList. key d = n then {n} else {})" .
    then show ?thesis unfolding step using True by auto
  qed
qed

lemma attachEachGenericOrAnalogSensor_fst:
  "fst (attachEachGenericOrAnalogSensor view gc devList nr sensorList m) \<longleftrightarrow>
     (\<forall>n\<in>set sensorList. \<forall>d\<in>set devList. key d = n \<longrightarrow>
        fst (view (poly d)) \<and> (\<exists>i. snd (view (poly d)) = Some i \<and> gc i = nr))"
proof (induction sensorList arbitrary: m)
  case Nil
  then show ?case by simp
next
  case (Cons n sensorList)
  let ?good = "\<lambda>n. \<forall>d\<in>set devList. key d = n \<longrightarrow>
        fst (view (poly d)) \<and> (\<exists>i. snd (view (poly d)) = Some i \<and> gc i = nr)"
  obtain b m' where r: "attachGenericOrAnalogSensor view gc devList n nr m = (b, m')"
    by (cases "attachGenericOrAnalogSensor view gc devList n nr m")
  have b: "b \<longleftrightarrow> ?good n"
    using attachGenericOrAnalogSensor_fst [of view gc devList n nr m] by (simp only: r fst_conv)
  show ?case
  proof (cases b)
    case True
    then have "attachEachGenericOrAnalogSensor view gc devList nr (n # sensorList) m =
        attachEachGenericOrAnalogSensor view gc devList nr sensorList m'"
      by (simp add: r)
    moreover have "?good n" using b True by blast
    ultimately show ?thesis using Cons.IH [of m'] by simp
  next
    case False
    then have "\<not> fst (attachEachGenericOrAnalogSensor view gc devList nr (n # sensorList) m)"
      by (simp add: r)
    moreover have "\<not> ?good n" using b False by blast
    ultimately show ?thesis by simp
  qed
qed

lemma attachEachGenericOrAnalogSensor_dom:
  "fst (attachEachGenericOrAnalogSensor view gc devList nr sensorList m) \<Longrightarrow>
   dom (snd (attachEachGenericOrAnalogSensor view gc devList nr sensorList m)) =
     dom m \<union> {n \<in> set sensorList. \<exists>d\<in>set devList. key d = n}"
proof (induction sensorList arbitrary: m)
  case Nil
  then show ?case by simp
next
  case (Cons n sensorList)
  obtain b m' where r: "attachGenericOrAnalogSensor view gc devList n nr m = (b, m')"
    by (cases "attachGenericOrAnalogSensor view gc devList n nr m")
  from Cons.prems r have b: b by (cases b) auto
  with Cons.prems r have rest: "fst (attachEachGenericOrAnalogSensor view gc devList nr sensorList m')"
    by simp
  have d: "dom m' = dom m \<union> (if \<exists>d\<in>set devList. key d = n then {n} else {})"
    using attachGenericOrAnalogSensor_dom [of view gc devList n nr m] r b by simp
  show ?case using r b Cons.IH [OF rest] d by auto
qed

lemma card_filter_set_eq_length:
  "card {n \<in> set xs. P n} = length xs \<longleftrightarrow> distinct xs \<and> (\<forall>n\<in>set xs. P n)"
proof
  assume c: "card {n \<in> set xs. P n} = length xs"
  have sub: "{n \<in> set xs. P n} \<subseteq> set xs" by auto
  have "card {n \<in> set xs. P n} \<le> card (set xs)"
    using sub by (simp add: card_mono)
  moreover have "card (set xs) \<le> length xs" by (rule card_length)
  ultimately have e: "card (set xs) = length xs" using c by simp
  then have dist: "distinct xs" by (rule card_distinct)
  have "{n \<in> set xs. P n} = set xs"
    using sub c e by (intro card_subset_eq) simp_all
  then show "distinct xs \<and> (\<forall>n\<in>set xs. P n)" using dist by auto
next
  assume a: "distinct xs \<and> (\<forall>n\<in>set xs. P n)"
  then have "{n \<in> set xs. P n} = set xs" by auto
  then show "card {n \<in> set xs. P n} = length xs" using a by (simp add: distinct_card)
qed

text \<open>
  Starting from an empty accessor map, the attachment of a generic or analog category
  succeeds if and only if the expected names are pairwise distinct, every expected name
  is the key of at least one device of the list, and every device of the list whose key
  is an expected name gives the required view and reports exactly the expected number
  of channels.
\<close>
lemma attachAllGenericOrAnalogSensors_first_attachment:
  "fst (attachAllGenericOrAnalogSensors view getChannels devList Map.empty nrChannelsInSensor sensorList) \<longleftrightarrow>
     distinct sensorList
     \<and> (\<forall>sensorName\<in>set sensorList. \<exists>dev\<in>set devList. key dev = sensorName)
     \<and> (\<forall>dev\<in>set devList. key dev \<in> set sensorList \<longrightarrow>
          fst (view (poly dev))
          \<and> (\<exists>sensorInterface. snd (view (poly dev)) = Some sensorInterface
               \<and> getChannels sensorInterface = nrChannelsInSensor))"
  (is "?attached \<longleftrightarrow> ?distinct \<and> ?present \<and> ?good")
proof -
  obtain b m' where r:
    "attachEachGenericOrAnalogSensor view getChannels devList nrChannelsInSensor sensorList Map.empty = (b, m')"
    by (cases "attachEachGenericOrAnalogSensor view getChannels devList nrChannelsInSensor sensorList Map.empty")
  have "b \<longleftrightarrow> (\<forall>n\<in>set sensorList. \<forall>d\<in>set devList. key d = n \<longrightarrow>
        fst (view (poly d)) \<and> (\<exists>i. snd (view (poly d)) = Some i \<and> getChannels i = nrChannelsInSensor))"
    using attachEachGenericOrAnalogSensor_fst [of view getChannels devList nrChannelsInSensor sensorList Map.empty]
    by (simp only: r fst_conv)
  also have "\<dots> \<longleftrightarrow> ?good" by blast
  finally have b: "b \<longleftrightarrow> ?good" .
  have res: "?attached \<longleftrightarrow> b \<and> card (dom m') = length sensorList"
    by (simp add: attachAllGenericOrAnalogSensors_def r)
  show ?thesis
  proof (cases b)
    case False
    then show ?thesis using res b by blast
  next
    case True
    then have "dom m' = {n \<in> set sensorList. \<exists>d\<in>set devList. key d = n}"
      using attachEachGenericOrAnalogSensor_dom [of view getChannels devList nrChannelsInSensor sensorList Map.empty]
      by (simp add: r)
    then have "card (dom m') = length sensorList \<longleftrightarrow> ?distinct \<and> ?present"
      by (simp only: card_filter_set_eq_length)
    then show ?thesis using res b True by blast
  qed
qed


lemma attachAllGenericOrAnalogSensors_first_attachment_example:
  "fst (attachAllGenericOrAnalogSensors viewIGenericSensor genericChannels
          [\<lparr>key = ''other'', poly = noInterfaces\<rparr>, imu0] Map.empty
          nrChannelsInYARPGenericIMUSensor [''imu0''])"
proof -
  have "distinct [''imu0'']
     \<and> (\<forall>sensorName\<in>set [''imu0''].
           \<exists>dev\<in>set [\<lparr>key = ''other'', poly = noInterfaces\<rparr>, imu0]. key dev = sensorName)
     \<and> (\<forall>dev\<in>set [\<lparr>key = ''other'', poly = noInterfaces\<rparr>, imu0]. key dev \<in> set [''imu0''] \<longrightarrow>
          fst (viewIGenericSensor (poly dev))
          \<and> (\<exists>sensorInterface. snd (viewIGenericSensor (poly dev)) = Some sensorInterface
               \<and> genericChannels sensorInterface = nrChannelsInYARPGenericIMUSensor))"
    by (simp add: imu0_def noInterfaces_def nrChannelsInYARPGenericIMUSensor_def)
  then show ?thesis
    by (rule attachAllGenericOrAnalogSensors_first_attachment [THEN iffD2])
qed

text \<open>
  With an entry of an earlier attachment still in the accessor map and an empty device
  list, no handle matches \<open>imu0\<close>, no name is scanned into the map, and the size test
  compares the old entry with the expected list.
\<close>
lemma attachAllGenericOrAnalogSensors_stale_map:
  "fst (attachAllGenericOrAnalogSensors viewIGenericSensor genericChannels []
          [''imu0'' \<mapsto> IGenericSensor 12] nrChannelsInYARPGenericIMUSensor [''imu0''])
   \<and> \<not> (\<exists>dev\<in>set ([] :: PolyDriverDescriptor list). key dev = ''imu0'')"
  by (simp add: attachAllGenericOrAnalogSensors_def)

text \<open>
  C2. The generic IMU category, attached twice on one bridge: the first attachment, with
  the device \<open>imu0\<close> in the list, succeeds and leaves \<open>imu0\<close> in the accessor map; the
  second attachment, with an empty device list, finds no handle for the expected name
  \<open>imu0\<close> and succeeds all the same, since the entry of the first attachment is still
  counted. On a bridge without that entry the same attachment fails.
\<close>
theorem attachAllInertials_stale_map_scenario:
  "attachAllInertials [imu0] imuImpl
     = Inr (True, imuImpl\<lparr>wholeBodyAnalogIMUInterface := [''imu0'' \<mapsto> IGenericSensor 12]\<rparr>)
   \<and> attachAllInertials [] (imuImpl\<lparr>wholeBodyAnalogIMUInterface := [''imu0'' \<mapsto> IGenericSensor 12]\<rparr>)
     = Inr (True, imuImpl\<lparr>wholeBodyAnalogIMUInterface := [''imu0'' \<mapsto> IGenericSensor 12]\<rparr>)
   \<and> attachAllInertials [] imuImpl = Inr (False, imuImpl)"
  by (simp add: attachAllInertials_def attachAllGenericOrAnalogSensors_def imuImpl_def imu0_def
      defaultImpl_def defaultMetaData_def noInterfaces_def nrChannelsInYARPGenericIMUSensor_def)

subsection \<open>Multiple analog sensor interfaces\<close>

lemma findRemappedMASSensor_fst:
  "fst (findRemappedMASSensor view devList masSensorInterface) \<longleftrightarrow>
     (\<exists>dev\<in>set devList. snd (view (poly dev)) \<noteq> None)"
  by (induction devList) (auto split: option.splits)

lemma findRemappedMASSensor_snd:
  "fst (findRemappedMASSensor view devList masSensorInterface) \<Longrightarrow>
     snd (findRemappedMASSensor view devList masSensorInterface) \<noteq> None"
  by (induction devList) (auto split: option.splits)

lemma attachRemappedMASSensor_fst:
  "fst (attachRemappedMASSensor view devList masSensorInterface) \<longleftrightarrow>
     (\<exists>dev\<in>set devList. snd (view (poly dev)) \<noteq> None)"
proof -
  obtain broken p where r: "findRemappedMASSensor view devList masSensorInterface = (broken, p)"
    by (cases "findRemappedMASSensor view devList masSensorInterface")
  have "broken \<longleftrightarrow> (\<exists>dev\<in>set devList. snd (view (poly dev)) \<noteq> None)"
    using findRemappedMASSensor_fst [of view devList masSensorInterface] by (simp only: r fst_conv)
  moreover have "broken \<Longrightarrow> p \<noteq> None"
    using findRemappedMASSensor_snd [of view devList masSensorInterface] by (simp add: r)
  ultimately show ?thesis
    by (auto simp: attachRemappedMASSensor_def r)
qed

lemma attachRemappedMASSensor_snd:
  "fst (attachRemappedMASSensor view devList masSensorInterface) \<Longrightarrow>
     snd (attachRemappedMASSensor view devList masSensorInterface) \<noteq> None"
  by (auto simp: attachRemappedMASSensor_def split: prod.splits if_splits)

lemma attachAllInertials_frame:
  "attachAllInertials devList impl = Inr (attached, impl') \<Longrightarrow>
     impl' = impl \<or> (\<exists>sensorMap. impl' = impl\<lparr>wholeBodyAnalogIMUInterface := sensorMap\<rparr>)"
  unfolding attachAllInertials_def Let_def
  by (auto split: prod.splits sum.splits bool.splits if_splits)

text \<open>
  C9. The discovery \<^verbatim>\<open>attachRemappedMASSensor\<close> succeeds exactly when some device gives a
  non-null MAS pointer, and then its own copy of the pointer parameter holds an
  interface; the caller's pointer is untouched. So \<^verbatim>\<open>attachAndCheckMASSensors\<close> runs the
  sensor check on the pointer it was called with (a null pointer there is dereferenced),
  and \<^verbatim>\<open>attachAllInertials\<close> returns with the MAS members of the bridge as they were.
\<close>
theorem attachRemappedMASSensor_by_value:
  "(\<forall>attached impl'. attachAllInertials devList impl = Inr (attached, impl') \<longrightarrow>
       wholeBodyMASInertialsInterface impl' = wholeBodyMASInertialsInterface impl)
   \<and> attachAndCheckMASSensors view devList sensorInterface sensorList =
       (if \<exists>dev\<in>set devList. snd (view (poly dev)) \<noteq> None
        then (case checkAttachedMASSensors sensorInterface sensorList of
                Inl e \<Rightarrow> Inl e
              | Inr checked \<Rightarrow> Inr (fst checked))
        else Inr False)
   \<and> ((\<exists>dev\<in>set devList. snd (view (poly dev)) \<noteq> None) \<longrightarrow>
        snd (attachRemappedMASSensor view devList sensorInterface) \<noteq> None
        \<and> attachAndCheckMASSensors view devList None sensorList = Inl NullPointerDereference)"
proof (intro conjI allI impI)
  fix attached impl'
  assume "attachAllInertials devList impl = Inr (attached, impl')"
  from attachAllInertials_frame [OF this]
  show "wholeBodyMASInertialsInterface impl' = wholeBodyMASInertialsInterface impl"
    by auto
next
  show "attachAndCheckMASSensors view devList sensorInterface sensorList =
       (if \<exists>dev\<in>set devList. snd (view (poly dev)) \<noteq> None
        then (case checkAttachedMASSensors sensorInterface sensorList of
                Inl e \<Rightarrow> Inl e
              | Inr checked \<Rightarrow> Inr (fst checked))
        else Inr False)"
    unfolding attachAndCheckMASSensors_def attachRemappedMASSensor_fst
    by (auto split: sum.splits)
next
  assume f: "\<exists>dev\<in>set devList. snd (view (poly dev)) \<noteq> None"
  then have "fst (attachRemappedMASSensor view devList sensorInterface)"
    by (simp only: attachRemappedMASSensor_fst)
  then show "snd (attachRemappedMASSensor view devList sensorInterface) \<noteq> None"
    by (rule attachRemappedMASSensor_snd)
  from f have "fst (attachRemappedMASSensor view devList None)"
    by (simp only: attachRemappedMASSensor_fst)
  then show "attachAndCheckMASSensors view devList None sensorList = Inl NullPointerDereference"
    by (simp add: attachAndCheckMASSensors_def checkAttachedMASSensors_def getNumberOfMASSensors_def)
qed

theorem attachRemappedMASSensor_by_value_witness:
  "attachAllInertials gyroDevList staleGyroImpl = Inr (False, staleGyroImpl)
   \<and> gyroscopes (wholeBodyMASInertialsInterface staleGyroImpl)
        = Some (MASSensorType [(True, ''old_gyro''), (True, ''older_gyro'')])
   \<and> snd (attachRemappedMASSensor viewIThreeAxisGyroscopes gyroDevList
            (gyroscopes (wholeBodyMASInertialsInterface staleGyroImpl))) = Some gyroAggregate
   \<and> attachAndCheckMASSensors viewIThreeAxisGyroscopes gyroDevList None [''r_leg_gyro'']
        = Inl NullPointerDereference"
proof -
  have found: "\<exists>dev\<in>set gyroDevList. snd (viewIThreeAxisGyroscopes (poly dev)) \<noteq> None"
    by (simp add: gyroDevList_def)
  have run: "attachAllInertials gyroDevList staleGyroImpl = Inr (False, staleGyroImpl)"
    by (simp add: checkAttachedMASSensors_def getNumberOfMASSensors_def attachAndCheckMASSensors_def
      attachRemappedMASSensor_def attachAllInertials_def gyroAggregate_def gyroDevList_def gyroImpl_def
      staleGyroImpl_def defaultImpl_def defaultMetaData_def noInterfaces_def)
  have copy: "snd (attachRemappedMASSensor viewIThreeAxisGyroscopes gyroDevList
            (gyroscopes (wholeBodyMASInertialsInterface staleGyroImpl))) = Some gyroAggregate"
    by (simp add: attachRemappedMASSensor_def gyroDevList_def)
  have member: "gyroscopes (wholeBodyMASInertialsInterface staleGyroImpl)
        = Some (MASSensorType [(True, ''old_gyro''), (True, ''older_gyro'')])"
    by (simp add: staleGyroImpl_def)
  from attachRemappedMASSensor_by_value
         [of gyroDevList staleGyroImpl viewIThreeAxisGyroscopes
             "gyroscopes (wholeBodyMASInertialsInterface staleGyroImpl)" "[''r_leg_gyro'']"]
       found
  have "attachAndCheckMASSensors viewIThreeAxisGyroscopes gyroDevList None [''r_leg_gyro'']
        = Inl NullPointerDereference"
    by blast
  then show ?thesis using run copy member by simp
qed

text \<open>
  C10. When the number of sensors the MAS interface reports differs from the length of
  the configured list, the sensor check returns false before it looks at any name, and
  the MAS attachment fails with it.
\<close>
theorem checkAttachedMASSensors_count_mismatch:
  assumes "getNumberOfMASSensors sensorInterface = Inr nrSensors"
    and "nrSensors \<noteq> length sensorList"
  shows "checkAttachedMASSensors sensorInterface sensorList = Inr (False, [])
     \<and> attachAndCheckMASSensors view devList sensorInterface sensorList = Inr False"
  using assms by (simp add: checkAttachedMASSensors_def attachAndCheckMASSensors_def)

theorem checkAttachedMASSensors_count_mismatch_witness:
  "getNumberOfMASSensors (Some (MASSensorType [(True, ''l_gyro''), (True, ''r_gyro'')])) = Inr 2
   \<and> 2 \<noteq> length [''r_gyro'']
   \<and> set [''r_gyro''] \<subseteq> set (map snd (masSensors (MASSensorType [(True, ''l_gyro''), (True, ''r_gyro'')])))
   \<and> checkAttachedMASSensors (Some (MASSensorType [(True, ''l_gyro''), (True, ''r_gyro'')])) [''r_gyro'']
        = Inr (False, [])
   \<and> attachAndCheckMASSensors viewIThreeAxisGyroscopes gyroDevList
        (Some (MASSensorType [(True, ''l_gyro''), (True, ''r_gyro'')])) [''r_gyro''] = Inr False"
proof -
  have n: "getNumberOfMASSensors (Some (MASSensorType [(True, ''l_gyro''), (True, ''r_gyro'')])) = Inr 2"
    by (simp add: getNumberOfMASSensors_def)
  have m: "2 \<noteq> length [''r_gyro'']" by simp
  show ?thesis
    using n m checkAttachedMASSensors_count_mismatch [OF n m, of viewIThreeAxisGyroscopes gyroDevList]
    by simp
qed

lemma checkAttachedMASSensors_names_ignored:
  "getNumberOfMASSensors sensorInterface = Inr (length sensorList) \<Longrightarrow>
     \<exists>notFound. checkAttachedMASSensors sensorInterface sensorList = Inr (True, notFound)"
  by (auto simp: checkAttachedMASSensors_def getNumberOfMASSensors_def split: option.splits)

text \<open>
  C3. The gyroscope scenario: the configured name \<open>r_leg_ft_gyro\<close> is not among the names
  of the MAS interface (\<open>r_leg_gyro\<close>). The check writes the line for the unmatched name
  and returns true, and the attachment of the inertial sensors succeeds.
\<close>
theorem checkAttachedMASSensors_unmatched_name_scenario:
  "checkAttachedMASSensors (Some gyroAggregate) [''r_leg_ft_gyro''] = Inr (True, [''r_leg_ft_gyro''])
   \<and> attachAndCheckMASSensors viewIThreeAxisGyroscopes gyroDevList (Some gyroAggregate) [''r_leg_ft_gyro'']
       = Inr True
   \<and> attachAllInertials gyroDevList gyroImpl = Inr (True, gyroImpl)"
  by (simp add: checkAttachedMASSensors_def getNumberOfMASSensors_def attachAndCheckMASSensors_def
      attachRemappedMASSensor_def attachAllInertials_def gyroAggregate_def gyroDevList_def gyroImpl_def
      defaultImpl_def defaultMetaData_def noInterfaces_def)


subsection \<open>Six axis force torque sensors\<close>

lemma set_set_intersection:
  "sorted xs \<Longrightarrow> sorted ys \<Longrightarrow> set (set_intersection xs ys) = set xs \<inter> set ys"
proof (induction xs ys rule: set_intersection.induct)
  case (1 x xs y ys)
  show ?case
  proof (cases "x < y")
    case True
    then have "x \<notin> set (y # ys)" using "1.prems"(2) by auto
    moreover have "set (set_intersection xs (y # ys)) = set xs \<inter> set (y # ys)"
      using "1.IH"(1) [OF True] "1.prems" by simp
    ultimately show ?thesis using True by auto
  next
    case False
    show ?thesis
    proof (cases "y < x")
      case True
      then have "y \<notin> set (x # xs)" using "1.prems"(1) by auto
      moreover have "set (set_intersection (x # xs) ys) = set (x # xs) \<inter> set ys"
        using "1.IH"(2) [OF False True] "1.prems" by simp
      ultimately show ?thesis using False True by auto
    next
      case nlt: False
      with False have eq: "x = y" by simp
      have "set (set_intersection xs ys) = set xs \<inter> set ys"
        using "1.IH"(3) [OF False nlt] "1.prems" by simp
      then show ?thesis using False nlt eq by auto
    qed
  qed
qed simp_all

lemma analogFTSensors_intersection:
  assumes "fst (attachRemappedMASSensor viewISixAxisForceTorqueSensors devList
                  (sixAxisFTSensors (wholeBodyMASForceTorquesInterface impl)))"
    and "sixAxisFTSensors (wholeBodyMASForceTorquesInterface impl) = Some s"
  shows "\<exists>names. analogFTSensors devList impl = Inr names
     \<and> set names = set (map snd (masSensors s))
                      \<inter> set (sixAxisForceTorqueSensorsList (sensorsList (metaData impl)))"
  using assms
  by (simp add: analogFTSensors_def getAllSensorsInMASInterface_def set_set_intersection)

lemma sort_scenario_names:
  "sort [''r_leg_ft'', ''r_foot_ft''] = [''r_foot_ft'', ''r_leg_ft'']"
  by code_simp

lemma sort_scenario_aggregate: "sort [''r_leg_ft''] = [''r_leg_ft'']"
  by simp

lemma set_intersection_scenario:
  "set_intersection [''r_leg_ft''] [''r_foot_ft'', ''r_leg_ft''] = [''r_leg_ft'']"
  by code_simp

text \<open>
  C1. The six axis force torque scenario: the MAS interface is found and reports
  \<open>r_leg_ft\<close>. The list handed to the analog attachment is the intersection of the two
  name lists, \<open>r_leg_ft\<close>: the analog attachment is attempted for \<open>r_leg_ft\<close>, finds no
  device with that key and fails, and \<open>r_foot_ft\<close> is attached nowhere. (When the member
  pointer of the bridge is still null, the names are read through a null pointer.)
\<close>
theorem analogFTSensors_scenario:
  "analogFTSensors ftDevList ftImpl = Inr [''r_leg_ft'']
   \<and> attachAllSixAxisForceTorqueSensors ftDevList ftImpl = Inr (False, ftImpl)
   \<and> analogFTSensors ftDevList
         (ftImpl\<lparr>wholeBodyMASForceTorquesInterface := \<lparr>sixAxisFTSensors = None\<rparr>\<rparr>)
       = Inl NullPointerDereference"
proof -
  have names: "analogFTSensors ftDevList ftImpl = Inr [''r_leg_ft'']"
    by (simp add: analogFTSensors_def attachRemappedMASSensor_def getAllSensorsInMASInterface_def
        ftDevList_def ftImpl_def ftAggregate_def defaultImpl_def defaultMetaData_def noInterfaces_def
        sort_scenario_names sort_scenario_aggregate set_intersection_scenario
        del: sort_key_simps set_intersection.simps)
  then have "attachAllSixAxisForceTorqueSensors ftDevList ftImpl = Inr (False, ftImpl)"
    by (simp add: attachAllSixAxisForceTorqueSensors_def attachAllGenericOrAnalogSensors_def
        ftDevList_def ftImpl_def defaultImpl_def defaultMetaData_def noInterfaces_def)
  moreover have "analogFTSensors ftDevList
         (ftImpl\<lparr>wholeBodyMASForceTorquesInterface := \<lparr>sixAxisFTSensors = None\<rparr>\<rparr>)
       = Inl NullPointerDereference"
    by (simp add: analogFTSensors_def attachRemappedMASSensor_def getAllSensorsInMASInterface_def
        ftDevList_def noInterfaces_def)
  ultimately show ?thesis using names by simp
qed

subsection \<open>Control board\<close>

lemma configureRemoteControlBoardRemapper_nrJoints:
  "fst (configureRemoteControlBoardRemapper handler md) \<Longrightarrow>
     nrJoints (bridgeOptions (snd (configureRemoteControlBoardRemapper handler md)))
       = length (jointsList (sensorsList (snd (configureRemoteControlBoardRemapper handler md))))"
  by (auto simp: configureRemoteControlBoardRemapper_def Let_def split: option.splits if_splits)

lemma findControlBoardJoint_None:
  "findControlBoardJoint desiredJoint controlBoardJoints DOF = None \<longleftrightarrow>
     desiredJoint \<notin> set controlBoardJoints"
  by (induction controlBoardJoints arbitrary: DOF) auto

lemma findControlBoardJoint_Some:
  "findControlBoardJoint desiredJoint controlBoardJoints DOF = Some r \<Longrightarrow>
     DOF \<le> r \<and> r - DOF < length controlBoardJoints
     \<and> controlBoardJoints ! (r - DOF) = desiredJoint
     \<and> (\<forall>j < r - DOF. controlBoardJoints ! j \<noteq> desiredJoint)"
proof (induction controlBoardJoints arbitrary: DOF)
  case Nil
  then show ?case by simp
next
  case (Cons joint controlBoardJoints)
  show ?case
  proof (cases "desiredJoint = joint")
    case True
    then show ?thesis using Cons.prems by simp
  next
    case False
    with Cons.prems have "findControlBoardJoint desiredJoint controlBoardJoints (Suc DOF) = Some r"
      by simp
    from Cons.IH [OF this] have ih: "Suc DOF \<le> r" "r - Suc DOF < length controlBoardJoints"
      "controlBoardJoints ! (r - Suc DOF) = desiredJoint"
      "\<forall>j < r - Suc DOF. controlBoardJoints ! j \<noteq> desiredJoint"
      by simp_all
    from ih(1) obtain k where k: "r - DOF = Suc k" "r - Suc DOF = k"
      by (metis Suc_diff_Suc Suc_le_lessD)
    have "\<forall>j < Suc k. (joint # controlBoardJoints) ! j \<noteq> desiredJoint"
    proof (intro allI impI)
      fix j assume "j < Suc k"
      then show "(joint # controlBoardJoints) ! j \<noteq> desiredJoint"
        using False ih(4) k(2) by (cases j) auto
    qed
    then show ?thesis using ih k by simp
  qed
qed

lemma findControlBoardJoint_first:
  "findControlBoardJoint desiredJoint controlBoardJoints 0 = Some r \<Longrightarrow>
     r < length controlBoardJoints \<and> controlBoardJoints ! r = desiredJoint
     \<and> (\<forall>j < r. controlBoardJoints ! j \<noteq> desiredJoint)"
  using findControlBoardJoint_Some [of desiredJoint controlBoardJoints 0 r] by simp

lemma remapControlBoardJoints_total:
  "desiredDOF + length desiredJoints \<le> length indices \<Longrightarrow>
   remapControlBoardJoints desiredJoints desiredDOF controlBoardJoints jointFound indices \<noteq> Inl e"
proof (induction desiredJoints arbitrary: desiredDOF jointFound indices)
  case Nil
  then show ?case by simp
next
  case (Cons desiredJoint desiredJoints)
  show ?case
  proof (cases "findControlBoardJoint desiredJoint controlBoardJoints 0")
    case None
    then show ?thesis by simp
  next
    case (Some r)
    have "Suc desiredDOF + length desiredJoints \<le> length (indices[desiredDOF := r])"
      using Cons.prems by simp
    from Cons.IH [OF this, of True] show ?thesis using Some Cons.prems by simp
  qed
qed

lemma remapControlBoardJoints_result:
  "remapControlBoardJoints desiredJoints desiredDOF controlBoardJoints jointFound indices
       = Inr (found, indices') \<Longrightarrow>
     length indices' = length indices
     \<and> (found \<longleftrightarrow> (if desiredJoints = [] then jointFound
                      else set desiredJoints \<subseteq> set controlBoardJoints))
     \<and> (found \<longrightarrow>
          (\<forall>i < length desiredJoints.
             indices' ! (desiredDOF + i) < length controlBoardJoints
             \<and> controlBoardJoints ! (indices' ! (desiredDOF + i)) = desiredJoints ! i
             \<and> (\<forall>j < indices' ! (desiredDOF + i). controlBoardJoints ! j \<noteq> desiredJoints ! i)))
     \<and> (\<forall>i < desiredDOF. indices' ! i = indices ! i)"
proof (induction desiredJoints arbitrary: desiredDOF jointFound indices)
  case Nil
  then show ?case by simp
next
  case (Cons desiredJoint desiredJoints)
  show ?case
  proof (cases "findControlBoardJoint desiredJoint controlBoardJoints 0")
    case None
    then have "desiredJoint \<notin> set controlBoardJoints"
      by (simp add: findControlBoardJoint_None)
    moreover have "found = False" "indices' = indices" using None Cons.prems by simp_all
    ultimately show ?thesis by simp
  next
    case (Some r)
    note first = findControlBoardJoint_first [OF Some]
    have inset: "desiredJoint \<in> set controlBoardJoints"
      using first by (metis nth_mem)
    have range: "desiredDOF < length indices"
      using Cons.prems Some by (simp split: if_splits)
    have step: "remapControlBoardJoints desiredJoints (Suc desiredDOF) controlBoardJoints True (indices[desiredDOF := r])
         = Inr (found, indices')"
      using Cons.prems Some range by simp
    from Cons.IH [OF step] have ih:
      "length indices' = length (indices[desiredDOF := r])"
      "found \<longleftrightarrow> (if desiredJoints = [] then True else set desiredJoints \<subseteq> set controlBoardJoints)"
      "found \<longrightarrow>
          (\<forall>i < length desiredJoints.
             indices' ! (Suc desiredDOF + i) < length controlBoardJoints
             \<and> controlBoardJoints ! (indices' ! (Suc desiredDOF + i)) = desiredJoints ! i
             \<and> (\<forall>j < indices' ! (Suc desiredDOF + i). controlBoardJoints ! j \<noteq> desiredJoints ! i))"
      "\<forall>i < Suc desiredDOF. indices' ! i = (indices[desiredDOF := r]) ! i"
      by blast+
    have here: "indices' ! desiredDOF = r" using ih(4) range by simp
    have before: "\<forall>i < desiredDOF. indices' ! i = indices ! i" using ih(4) by simp
    have found: "found \<longleftrightarrow> set (desiredJoint # desiredJoints) \<subseteq> set controlBoardJoints"
      using ih(2) inset by auto
    have all: "found \<longrightarrow>
          (\<forall>i < length (desiredJoint # desiredJoints).
             indices' ! (desiredDOF + i) < length controlBoardJoints
             \<and> controlBoardJoints ! (indices' ! (desiredDOF + i)) = (desiredJoint # desiredJoints) ! i
             \<and> (\<forall>j < indices' ! (desiredDOF + i). controlBoardJoints ! j \<noteq> (desiredJoint # desiredJoints) ! i))"
    proof (intro impI allI)
      fix i assume f: found and i: "i < length (desiredJoint # desiredJoints)"
      show "indices' ! (desiredDOF + i) < length controlBoardJoints
             \<and> controlBoardJoints ! (indices' ! (desiredDOF + i)) = (desiredJoint # desiredJoints) ! i
             \<and> (\<forall>j < indices' ! (desiredDOF + i). controlBoardJoints ! j \<noteq> (desiredJoint # desiredJoints) ! i)"
      proof (cases i)
        case 0
        then show ?thesis using here first by simp
      next
        case (Suc k)
        then have "k < length desiredJoints" using i by simp
        with ih(3) f show ?thesis using Suc by simp
      qed
    qed
    show ?thesis using ih(1) found all before by simp
  qed
qed


text \<open>
  C4. Let the kinematics be enabled, the number of joints be the length of the configured
  joints list (as the configuration leaves it), and the discovery have bound a control
  board. Then the comparison of the joints lists returns, and the attachment of the control
  board returns the same: it succeeds exactly when the configured list is not empty and
  each of its names is an axis name of the board, and then entry \<open>i\<close> of the index buffer
  is the first position of the \<open>i\<close>-th configured name among the axis names. A configured
  name that the board does not have makes the attachment fail.
\<close>
theorem compareControlBoardJointsList_remap:
  assumes enabled: "isKinematicsEnabled (bridgeOptions (metaData impl))"
    and nr: "nrJoints (bridgeOptions (metaData impl)) = length (jointsList (sensorsList (metaData impl)))"
    and board: "findRemappedRemoteControlBoard devList True (controlBoardRemapperInterfaces impl)
                  = (True, \<lparr>encoders = Some enc, axis = Some ax\<rparr>)"
  shows "\<exists>jointFound impl'.
      compareControlBoardJointsList (resetControlBoardBuffers
          (impl\<lparr>controlBoardRemapperInterfaces := \<lparr>encoders = Some enc, axis = Some ax\<rparr>\<rparr>))
        = Inr (jointFound, impl')
      \<and> attachRemappedRemoteControlBoard devList impl = Inr (jointFound, impl')
      \<and> (jointFound \<longleftrightarrow>
            jointsList (sensorsList (metaData impl)) \<noteq> []
            \<and> set (jointsList (sensorsList (metaData impl)))
                 \<subseteq> set (map (getAxisName ax) [0 ..< nat (getAxes enc)]))
      \<and> (jointFound \<longrightarrow>
            length (remappedJointIndices (controlBoardRemapperMeasures impl'))
              = length (jointsList (sensorsList (metaData impl)))
            \<and> (\<forall>i < length (jointsList (sensorsList (metaData impl))).
                 remappedJointIndices (controlBoardRemapperMeasures impl') ! i < nat (getAxes enc)
                 \<and> getAxisName ax (remappedJointIndices (controlBoardRemapperMeasures impl') ! i)
                     = jointsList (sensorsList (metaData impl)) ! i
                 \<and> (\<forall>j < remappedJointIndices (controlBoardRemapperMeasures impl') ! i.
                       getAxisName ax j \<noteq> jointsList (sensorsList (metaData impl)) ! i)))"
proof -
  let ?canon = "jointsList (sensorsList (metaData impl))"
  let ?live = "map (getAxisName ax) [0 ..< nat (getAxes enc)]"
  let ?impl1 = "resetControlBoardBuffers
          (impl\<lparr>controlBoardRemapperInterfaces := \<lparr>encoders = Some enc, axis = Some ax\<rparr>\<rparr>)"
  let ?zero = "replicate (length ?canon) (0::nat)"
  have live: "(if getAxes enc \<le> 0 then Inr [] else (Inr ?live :: error + string list)) = Inr ?live"
    by simp
  have "remapControlBoardJoints ?canon 0 ?live False ?zero \<noteq> Inl e" for e
    by (rule remapControlBoardJoints_total) simp
  then obtain jointFound indices where
    r: "remapControlBoardJoints ?canon 0 ?live False ?zero = Inr (jointFound, indices)"
    by (cases "remapControlBoardJoints ?canon 0 ?live False ?zero") auto
  note p = remapControlBoardJoints_result [OF r]
  define impl' where "impl' = ?impl1\<lparr>controlBoardRemapperMeasures :=
       (controlBoardRemapperMeasures ?impl1)\<lparr>remappedJointIndices := indices\<rparr>\<rparr>"
  have c: "compareControlBoardJointsList ?impl1 = Inr (jointFound, impl')"
  proof (cases "getAxes enc \<le> 0")
    case True
    then have "?live = []" by simp
    with r have "remapControlBoardJoints ?canon 0 [] False ?zero = Inr (jointFound, indices)"
      by simp
    then show ?thesis
      using True nr
      by (simp add: compareControlBoardJointsList_def resetControlBoardBuffers_def impl'_def Let_def)
  next
    case False
    then show ?thesis
      using r nr
      by (simp add: compareControlBoardJointsList_def resetControlBoardBuffers_def impl'_def Let_def)
  qed
  have a: "attachRemappedRemoteControlBoard devList impl = Inr (jointFound, impl')"
    using c enabled board by (simp add: attachRemappedRemoteControlBoard_def)
  have idx: "remappedJointIndices (controlBoardRemapperMeasures impl') = indices"
    by (simp add: impl'_def)
  have f: "jointFound \<longleftrightarrow> ?canon \<noteq> [] \<and> set ?canon \<subseteq> set ?live"
    using p by (cases "?canon = []") simp_all
  have g: "jointFound \<longrightarrow> length indices = length ?canon
            \<and> (\<forall>i < length ?canon.
                 indices ! i < nat (getAxes enc)
                 \<and> getAxisName ax (indices ! i) = ?canon ! i
                 \<and> (\<forall>j < indices ! i. getAxisName ax j \<noteq> ?canon ! i))"
  proof (intro impI conjI allI)
    assume jf: jointFound
    show "length indices = length ?canon" using p by simp
    fix i assume i: "i < length ?canon"
    from p jf have "\<forall>i < length ?canon.
             indices ! (0 + i) < length ?live
             \<and> ?live ! (indices ! (0 + i)) = ?canon ! i
             \<and> (\<forall>j < indices ! (0 + i). ?live ! j \<noteq> ?canon ! i)"
      by blast
    with i have q: "indices ! i < length ?live" "?live ! (indices ! i) = ?canon ! i"
      "\<forall>j < indices ! i. ?live ! j \<noteq> ?canon ! i"
      by (simp_all del: length_map nth_map)
    show lt: "indices ! i < nat (getAxes enc)" using q(1) by simp
    show "getAxisName ax (indices ! i) = ?canon ! i" using q(2) lt by simp
    fix j assume j: "j < indices ! i"
    then have "?live ! j \<noteq> ?canon ! i" using q(3) by blast
    then show "getAxisName ax j \<noteq> ?canon ! i" using j lt by simp
  qed
  show ?thesis
    apply (rule exI [of _ jointFound])
    apply (rule exI [of _ impl'])
    using c a f g unfolding idx by blast
qed

theorem compareControlBoardJointsList_remap_witness:
  "isKinematicsEnabled (bridgeOptions (metaData kinematicsImpl))
   \<and> nrJoints (bridgeOptions (metaData kinematicsImpl)) = length (jointsList (sensorsList (metaData kinematicsImpl)))
   \<and> (\<exists>impl'. attachRemappedRemoteControlBoard [controlBoard] kinematicsImpl = Inr (True, impl')
         \<and> remappedJointIndices (controlBoardRemapperMeasures impl') = [1, 0])"
proof -
  have enabled: "isKinematicsEnabled (bridgeOptions (metaData kinematicsImpl))"
    by (simp add: kinematicsImpl_def)
  have nr: "nrJoints (bridgeOptions (metaData kinematicsImpl)) = length (jointsList (sensorsList (metaData kinematicsImpl)))"
    by (simp add: kinematicsImpl_def)
  have board: "findRemappedRemoteControlBoard [controlBoard] True (controlBoardRemapperInterfaces kinematicsImpl)
      = (True, \<lparr>encoders = Some (IEncodersTimed 3),
                axis = Some (IAxisInfo (\<lambda>DOF. [''knee'', ''hip'', ''ankle''] ! DOF))\<rparr>)"
    by (simp add: controlBoard_def kinematicsImpl_def defaultImpl_def noInterfaces_def)
  from compareControlBoardJointsList_remap [OF enabled nr board]
  obtain jointFound impl' where
    a: "attachRemappedRemoteControlBoard [controlBoard] kinematicsImpl = Inr (jointFound, impl')"
    and f: "jointFound \<longleftrightarrow>
            jointsList (sensorsList (metaData kinematicsImpl)) \<noteq> []
            \<and> set (jointsList (sensorsList (metaData kinematicsImpl)))
                 \<subseteq> set (map (getAxisName (IAxisInfo (\<lambda>DOF. [''knee'', ''hip'', ''ankle''] ! DOF)))
                          [0 ..< nat (getAxes (IEncodersTimed 3))])"
    by blast
  have live: "map (getAxisName (IAxisInfo (\<lambda>DOF. [''knee'', ''hip'', ''ankle''] ! DOF)))
                          [0 ..< nat (getAxes (IEncodersTimed 3))] = [''knee'', ''hip'', ''ankle'']"
    by (simp add: upt_rec)
  have jf: jointFound unfolding f live by (simp add: kinematicsImpl_def defaultMetaData_def)
  have "map_sum id (\<lambda>r. remappedJointIndices (controlBoardRemapperMeasures (snd r)))
          (attachRemappedRemoteControlBoard [controlBoard] kinematicsImpl) = Inr [1, 0]"
    by (simp add: attachRemappedRemoteControlBoard_def compareControlBoardJointsList_def
        resetControlBoardBuffers_def controlBoard_def kinematicsImpl_def defaultImpl_def
        defaultMetaData_def noInterfaces_def upt_rec Let_def numeral_2_eq_2)
  then have "remappedJointIndices (controlBoardRemapperMeasures impl') = [1, 0]"
    by (simp add: a)
  then show ?thesis using enabled nr a jf by simp
qed

lemma findRemappedRemoteControlBoard_not_ok:
  "findRemappedRemoteControlBoard devList False interfaces = (False, interfaces)"
  by (induction devList) simp_all

lemma findRemappedRemoteControlBoard_first_only:
  "fst (findRemappedRemoteControlBoard devList True interfaces) \<longleftrightarrow>
     (case devList of
        [] \<Rightarrow> True
      | dev # _ \<Rightarrow> fst (viewIAxisInfo (poly dev)) \<and> fst (viewIEncodersTimed (poly dev)))"
  by (cases devList) (auto simp: findRemappedRemoteControlBoard_not_ok)

text \<open>
  C5. A device list whose second handle gives both the axis view and the encoder view,
  after a first handle that gives neither: once the first \<^verbatim>\<open>view\<close> has returned false,
  \<^verbatim>\<open>ok\<close> stays false, no later handle is asked, and the attachment fails. With the two
  handles in the other order it succeeds.
\<close>
theorem findRemappedRemoteControlBoard_second_handle_scenario:
  "fst (viewIAxisInfo (poly controlBoard)) \<and> fst (viewIEncodersTimed (poly controlBoard))
   \<and> findRemappedRemoteControlBoard [imu0, controlBoard] True (controlBoardRemapperInterfaces kinematicsImpl)
       = (False, \<lparr>encoders = None, axis = None\<rparr>)
   \<and> attachRemappedRemoteControlBoard [imu0, controlBoard] kinematicsImpl = Inr (False, kinematicsImpl)
   \<and> (\<exists>impl'. attachRemappedRemoteControlBoard [controlBoard, imu0] kinematicsImpl = Inr (True, impl'))"
  by (simp add: attachRemappedRemoteControlBoard_def compareControlBoardJointsList_def
        resetControlBoardBuffers_def controlBoard_def kinematicsImpl_def defaultImpl_def
        defaultMetaData_def noInterfaces_def imu0_def upt_rec Let_def numeral_2_eq_2)


subsection \<open>Cameras\<close>

lemma resizeImageBuffers_fst:
  "fst (resizeImageBuffers camList dims bufs) \<longleftrightarrow> (\<forall>cam\<in>set camList. dims cam \<noteq> None)"
  by (induction camList arbitrary: bufs) (auto split: option.splits)

lemma resizeImageBuffers_snd:
  "snd (resizeImageBuffers camList dims bufs) cam =
     (if cam \<in> set (takeWhile (\<lambda>c. dims c \<noteq> None) camList) then dims cam else bufs cam)"
  by (induction camList arbitrary: bufs) (auto split: option.splits)

lemma attachAllCamerasOfSpecificType_fst:
  "fst (attachAllCamerasOfSpecificType view devList camList dims sensorMap bufs) \<Longrightarrow>
   fst (resizeImageBuffers camList dims bufs)"
  by (auto simp: attachAllCamerasOfSpecificType_def split: prod.splits bool.splits if_splits)

lemma attachAllCamerasOfSpecificType_buffers:
  "snd (snd (attachAllCamerasOfSpecificType view devList camList dims sensorMap bufs)) = bufs
   \<or> snd (snd (attachAllCamerasOfSpecificType view devList camList dims sensorMap bufs)) =
       snd (resizeImageBuffers camList dims bufs)"
  by (auto simp: attachAllCamerasOfSpecificType_def split: prod.splits bool.splits if_splits)

text \<open>
  C7 (as amended). If an expected camera has no entry in the dimensions map, resizing
  the image buffers fails and so does the camera attachment. The buffers of the cameras
  listed before the first camera without dimensions are resized to their configured
  dimensions; every other buffer is left as it was. The camera attachment leaves the
  buffers outside that prefix as they were, too.
\<close>
theorem resizeImageBuffers_missing_dimensions:
  assumes "\<exists>cam\<in>set camList. imgDimensionsMap cam = None"
  shows "\<not> fst (resizeImageBuffers camList imgDimensionsMap imgBuffersMap)
     \<and> \<not> fst (attachAllCamerasOfSpecificType view devList camList imgDimensionsMap sensorMap imgBuffersMap)
     \<and> (\<forall>cam. snd (resizeImageBuffers camList imgDimensionsMap imgBuffersMap) cam =
           (if cam \<in> set (takeWhile (\<lambda>c. imgDimensionsMap c \<noteq> None) camList)
            then imgDimensionsMap cam else imgBuffersMap cam))
     \<and> (\<forall>cam. cam \<notin> set (takeWhile (\<lambda>c. imgDimensionsMap c \<noteq> None) camList) \<longrightarrow>
           snd (snd (attachAllCamerasOfSpecificType view devList camList imgDimensionsMap sensorMap imgBuffersMap)) cam =
             imgBuffersMap cam)"
proof -
  have r: "\<not> fst (resizeImageBuffers camList imgDimensionsMap imgBuffersMap)"
    using assms unfolding resizeImageBuffers_fst by blast
  then have a: "\<not> fst (attachAllCamerasOfSpecificType view devList camList imgDimensionsMap sensorMap imgBuffersMap)"
    using attachAllCamerasOfSpecificType_fst by blast
  have b: "\<forall>cam. cam \<notin> set (takeWhile (\<lambda>c. imgDimensionsMap c \<noteq> None) camList) \<longrightarrow>
           snd (snd (attachAllCamerasOfSpecificType view devList camList imgDimensionsMap sensorMap imgBuffersMap)) cam =
             imgBuffersMap cam"
    using attachAllCamerasOfSpecificType_buffers [of view devList camList imgDimensionsMap sensorMap imgBuffersMap]
    by (auto simp: resizeImageBuffers_snd)
  show ?thesis using r a b by (simp add: resizeImageBuffers_snd)
qed

theorem resizeImageBuffers_missing_dimensions_witness:
  "(\<exists>cam\<in>set [''cam0'', ''cam1'']. [''cam0'' \<mapsto> (640::int, 480::int)] cam = None)
   \<and> \<not> fst (resizeImageBuffers [''cam0'', ''cam1''] [''cam0'' \<mapsto> (640, 480)] Map.empty)
   \<and> snd (resizeImageBuffers [''cam0'', ''cam1''] [''cam0'' \<mapsto> (640, 480)] Map.empty) ''cam1'' = None"
proof -
  have h: "\<exists>cam\<in>set [''cam0'', ''cam1'']. [''cam0'' \<mapsto> (640::int, 480::int)] cam = None"
    by simp
  show ?thesis
    using h resizeImageBuffers_missing_dimensions [OF h, of Map.empty viewIFrameGrabberImage "[]" Map.empty]
    by simp
qed

text \<open>
  C7 as first stated does not hold: \<open>cam1\<close> has no dimensions, the attachment fails,
  and the buffer of \<open>cam0\<close>, which did not exist before the call, has been allocated.
\<close>
theorem resizeImageBuffers_partial_resize_counterexample:
  "[''cam0'' \<mapsto> (640 :: int, 480 :: int)] ''cam1'' = None
   \<and> \<not> fst (attachAllCamerasOfSpecificType viewIFrameGrabberImage [cam0, cam1] [''cam0'', ''cam1'']
              [''cam0'' \<mapsto> (640, 480)] Map.empty Map.empty)
   \<and> snd (snd (attachAllCamerasOfSpecificType viewIFrameGrabberImage [cam0, cam1] [''cam0'', ''cam1'']
              [''cam0'' \<mapsto> (640, 480)] Map.empty Map.empty)) ''cam0'' = Some (640, 480)
   \<and> (Map.empty :: string \<rightharpoonup> int \<times> int) ''cam0'' = None"
  by (simp add: attachAllCamerasOfSpecificType_def cam0_def cam1_def noInterfaces_def)


subsection \<open>Camera configuration\<close>

lemma configureImgDimensions_present:
  "fst (getParameterInts ptr widthName) \<or> fst (getParameterInts ptr heightName) \<Longrightarrow>
     \<exists>name. configureImgDimensions ptr widthName heightName cameras dims
       = Inl (RequiredParameterNotAvailable name)"
  by (auto simp: configureImgDimensions_def)

lemma configureCameras_rgb_dimensions_present:
  "fst (getParameterStrings ptr ''rgb_cameras_list'') \<Longrightarrow>
   fst (getParameterInts ptr ''rgb_image_width'') \<or> fst (getParameterInts ptr ''rgb_image_height'') \<Longrightarrow>
   \<not> fst (configureCameras (Some ptr) md)"
  by (auto simp: configureCameras_def configureImgDimensions_def Let_def)

text \<open>
  C6. The camera configuration of the scenario (two cameras, two widths, one height)
  fails with the message that the parameter \<open>rgb_image_width\<close> is not available, not
  with the size mismatch; a configuration with two widths and two heights fails in the
  same way; a configuration with an empty camera list and neither parameter succeeds.
\<close>
theorem configureCameras_scenario:
  "fst (configureCameras (Some scenarioHandler) defaultMetaData) = False
   \<and> fst (snd (configureCameras (Some scenarioHandler) defaultMetaData))
        = Some (RequiredParameterNotAvailable ''rgb_image_width'')
   \<and> fst (configureCameras (Some consistentHandler) defaultMetaData) = False
   \<and> fst (snd (configureCameras (Some consistentHandler) defaultMetaData))
        = Some (RequiredParameterNotAvailable ''rgb_image_width'')
   \<and> fst (configureCameras (Some noDimensionsHandler) defaultMetaData) = True"
  by (simp add: configureCameras_def configureImgDimensions_def scenarioHandler_def
      consistentHandler_def noDimensionsHandler_def defaultMetaData_def Let_def)

end
